theory Spec2Isabelle
  imports Complex_Main "HOL-Library.Word"
begin

section \<open>Trust scoring engine (registry/trust\_engine.py)\<close>

text \<open>
  A Python float is a finite IEEE double, modelled by the real number it denotes. The result
  of an arithmetic operation on doubles is the double nearest to the exact result, and
  \<open>math.log1p\<close> is the C library's: both are parameters of the model, a \<open>float_arith\<close>, so
  that what is proved for every \<open>float_arith\<close> (or for every one that rounds monotonically
  and leaves 0, 10 and 100 alone) holds for the doubles. \<open>min\<close>, \<open>max\<close> and the comparisons
  are exact on doubles, and the constants of the source are integers that doubles represent.
  Converting an \<open>int\<close> to a double and dividing two \<open>int\<close>s raise \<open>OverflowError\<close> when the
  nearest double would lie beyond the largest finite one. \<open>exact_arith\<close> is the arithmetic
  in which no operation rounds; the concrete evaluations below use it, at inputs where the
  doubles give the same result.
\<close>

datatype error =
    ValueError            \<comment> \<open>math domain error, node not found, amount or timestamp out of range\<close>
  | OverflowError         \<comment> \<open>an \<open>int\<close> too large for a double\<close>
  | IntegrityError        \<comment> \<open>a commit that violates a primary-key or unique constraint\<close>
  | PendingRollbackError  \<comment> \<open>work on a session whose commit has failed\<close>
  | HTTPException nat     \<comment> \<open>raised by the API handlers, with the status code\<close>
  | RPCError              \<comment> \<open>any failure of a ledger call\<close>

record float_arith =
  rnd :: "real \<Rightarrow> real"     \<comment> \<open>the double nearest to a real number\<close>
  flog1p :: "real \<Rightarrow> real"  \<comment> \<open>\<open>math.log1p\<close> on a double greater than -1\<close>

definition fadd :: "float_arith \<Rightarrow> real \<Rightarrow> real \<Rightarrow> real" where
  "fadd fp x y = rnd fp (x + y)"

definition fsub :: "float_arith \<Rightarrow> real \<Rightarrow> real \<Rightarrow> real" where
  "fsub fp x y = rnd fp (x - y)"

definition fmul :: "float_arith \<Rightarrow> real \<Rightarrow> real \<Rightarrow> real" where
  "fmul fp x y = rnd fp (x * y)"

definition fdiv :: "float_arith \<Rightarrow> real \<Rightarrow> real \<Rightarrow> real" where
  "fdiv fp x y = rnd fp (x / y)"

text \<open>
  A real number whose nearest double is beyond the largest finite double: from the midpoint
  between that double and \<open>2 ^ 1024\<close> on.
\<close>

definition float_overflow :: "real \<Rightarrow> bool" where
  "float_overflow x = (2 ^ 1024 - 2 ^ 970 \<le> \<bar>x\<bar>)"

text \<open>\<open>math.log1p\<close> on its domain \<open>x > -1\<close>, computed exactly.\<close>

definition log1p :: "real \<Rightarrow> real" where
  "log1p x = ln (1 + x)"

definition exact_arith :: float_arith where
  "exact_arith = \<lparr>rnd = (\<lambda>x. x), flog1p = log1p\<rparr>"

text \<open>
  What the proofs use of rounding to the nearest double: it is monotone, and 0, 10 and 100
  are doubles.
\<close>

definition rounds_to_nearest :: "float_arith \<Rightarrow> bool" where
  "rounds_to_nearest fp =
     ((\<forall>x y. x \<le> y \<longrightarrow> rnd fp x \<le> rnd fp y)
      \<and> rnd fp 0 = 0 \<and> rnd fp 10 = 10 \<and> rnd fp 100 = 100)"

definition STAKE_WEIGHT :: real where "STAKE_WEIGHT = 30"
definition UPTIME_WEIGHT :: real where "UPTIME_WEIGHT = 25"
definition AI_QUALITY_WEIGHT :: real where "AI_QUALITY_WEIGHT = 20"
definition ENDORSEMENT_WEIGHT :: real where "ENDORSEMENT_WEIGHT = 15"
definition COMPLAINT_PENALTY :: real where "COMPLAINT_PENALTY = 10"
definition VERIFIED_BONUS :: real where "VERIFIED_BONUS = 10"
definition MAX_STAKE_MATIC :: real where "MAX_STAKE_MATIC = 1000"

text \<open>
  The dataclass \<open>TrustInputs\<close>; the constructor's arguments are, in the order of the source,
  \<open>stake_matic\<close>, \<open>uptime_ratio\<close>, \<open>ai_quality_score\<close>, \<open>endorsement_count\<close>,
  \<open>complaint_count\<close>, \<open>total_interactions\<close>, \<open>verified\<close>.
\<close>

datatype TrustInputs = TrustInputs real real real int int int bool

text \<open>The integer nearest to \<open>y\<close>, a tie going to the even neighbour.\<close>

definition round_half_even :: "real \<Rightarrow> int" where
  "round_half_even y =
     (let f = \<lfloor>y\<rfloor>;
          d = y - of_int f
      in if d < 1 / 2 then f
         else if 1 / 2 < d then f + 1
         else if even f then f else f + 1)"

text \<open>
  \<open>round(x, 2)\<close> on a double: the exact value of \<open>x\<close> is rounded to the nearest multiple of
  1/100, a tie going to the even multiple, and the result is the double nearest to that.
\<close>

definition py_round2_fp :: "float_arith \<Rightarrow> real \<Rightarrow> real" where
  "py_round2_fp fp x = rnd fp (of_int (round_half_even (x * 100)) / 100)"

text \<open>\<open>round(x, 2)\<close> in the exact arithmetic.\<close>

definition py_round2 :: "real \<Rightarrow> real" where
  "py_round2 x = of_int (round_half_even (x * 100)) / 100"

definition score_to_tier :: "real \<Rightarrow> bool \<Rightarrow> string" where
  "score_to_tier score verified =
     (if score \<ge> 90 then ''ENTERPRISE''
      else if score \<ge> 70 then ''TRUSTED''
      else if score \<ge> 40 \<and> verified then ''VERIFIED''
      else ''UNVERIFIED'')"

text \<open>
  \<open>compute_trust_score\<close>, in the arithmetic \<open>fp\<close>. Two lines can raise, and nothing with an
  effect precedes them, so the model tests for them first, in the order of the source:
  \<open>math.log1p(endorsement_count)\<close> converts the count to a double (\<open>OverflowError\<close>) and
  then refuses -1 and less (\<open>ValueError\<close>); \<open>complaint_count / total_interactions\<close> raises
  \<open>OverflowError\<close> when the quotient is too large for a double. The stake is guarded by
  \<open>stake_matic > 0\<close>, and the two constants are positive. The sum is evaluated from left to
  right, each product and each sum rounded.
\<close>

definition compute_trust_score_fp ::
    "float_arith \<Rightarrow> TrustInputs \<Rightarrow> error + (real \<times> string)" where
  "compute_trust_score_fp fp inputs =
     (case inputs of
        TrustInputs stake_matic uptime_ratio ai_quality_score endorsement_count
          complaint_count total_interactions verified \<Rightarrow>
      if float_overflow (real_of_int endorsement_count) then Inl OverflowError
      else if real_of_int endorsement_count \<le> -1 then Inl ValueError
      else if total_interactions > 0
              \<and> float_overflow (real_of_int complaint_count / real_of_int total_interactions)
      then Inl OverflowError
      else
        let stake_norm =
              (if stake_matic > 0
               then min (fdiv fp (flog1p fp stake_matic) (flog1p fp MAX_STAKE_MATIC)) 1
               else 0);
            uptime_norm = max 0 (min 1 uptime_ratio);
            ai_norm = max 0 (min 1 ai_quality_score);
            endorsement_norm =
              min (fdiv fp (flog1p fp (rnd fp (real_of_int endorsement_count))) (flog1p fp 100)) 1;
            complaint_ratio =
              (if total_interactions > 0
               then rnd fp (real_of_int complaint_count / real_of_int total_interactions)
               else 0);
            complaint_penalty = min (fmul fp complaint_ratio COMPLAINT_PENALTY) COMPLAINT_PENALTY;
            verified_bonus = (if verified then VERIFIED_BONUS else 0);
            score =
              fadd fp
                (fsub fp
                   (fadd fp
                      (fadd fp
                         (fadd fp (fmul fp stake_norm STAKE_WEIGHT)
                            (fmul fp uptime_norm UPTIME_WEIGHT))
                         (fmul fp ai_norm AI_QUALITY_WEIGHT))
                      (fmul fp endorsement_norm ENDORSEMENT_WEIGHT))
                   complaint_penalty)
                verified_bonus;
            score = max 0 (min 100 score);
            tier = score_to_tier score verified
        in Inr (py_round2_fp fp score, tier))"

text \<open>\<open>compute_trust_score\<close> in the exact arithmetic.\<close>

definition compute_trust_score :: "TrustInputs \<Rightarrow> error + (real \<times> string)" where
  "compute_trust_score inputs = compute_trust_score_fp exact_arith inputs"

text \<open>
  The exception that the lines 72 and 76 of \<open>compute_trust_score\<close> raise, if any, for an
  endorsement count, a complaint count and a number of interactions.
\<close>

definition score_raises :: "int \<Rightarrow> int \<Rightarrow> int \<Rightarrow> error option" where
  "score_raises endorsements complaints interactions =
     (if float_overflow (real_of_int endorsements) then Some OverflowError
      else if real_of_int endorsements \<le> -1 then Some ValueError
      else if interactions > 0
              \<and> float_overflow (real_of_int complaints / real_of_int interactions)
      then Some OverflowError
      else None)"

text \<open>
  The value of the local variable \<open>score\<close> of \<open>compute_trust_score\<close> after its line 93, that
  is after the clamp and before \<open>round\<close>; it is the number the tier is computed from.
\<close>

definition unrounded_score_fp :: "float_arith \<Rightarrow> TrustInputs \<Rightarrow> real" where
  "unrounded_score_fp fp inputs =
     (case inputs of
        TrustInputs stake_matic uptime_ratio ai_quality_score endorsement_count
          complaint_count total_interactions verified \<Rightarrow>
     max 0 (min 100
       (fadd fp
          (fsub fp
             (fadd fp
                (fadd fp
                   (fadd fp
                      (fmul fp
                         (if stake_matic > 0
                          then min (fdiv fp (flog1p fp stake_matic) (flog1p fp MAX_STAKE_MATIC)) 1
                          else 0)
                         STAKE_WEIGHT)
                      (fmul fp (max 0 (min 1 uptime_ratio)) UPTIME_WEIGHT))
                   (fmul fp (max 0 (min 1 ai_quality_score)) AI_QUALITY_WEIGHT))
                (fmul fp
                   (min (fdiv fp (flog1p fp (rnd fp (real_of_int endorsement_count)))
                           (flog1p fp 100)) 1)
                   ENDORSEMENT_WEIGHT))
             (min (fmul fp
                     (if total_interactions > 0
                      then rnd fp (real_of_int complaint_count / real_of_int total_interactions)
                      else 0)
                     COMPLAINT_PENALTY)
                COMPLAINT_PENALTY))
          (if verified then VERIFIED_BONUS else 0))))"

text \<open>The same in the exact arithmetic.\<close>

definition unrounded_score :: "TrustInputs \<Rightarrow> real" where
  "unrounded_score inputs = unrounded_score_fp exact_arith inputs"

subsection \<open>The reference formula and the tiering, as the specification words them\<close>

definition clamp :: "real \<Rightarrow> real \<Rightarrow> real \<Rightarrow> real" where
  "clamp x lo hi = max lo (min hi x)"

text \<open>
  The specification's formula, in the arithmetic \<open>fp\<close>:
  \<open>stake_norm = min(log1p(stake) / log1p(MAX_STAKE), 1)\<close>,
  \<open>complaint_ratio = complaints / max(total_interactions, 1)\<close>,
  \<open>complaint_penalty = min(complaint_ratio, 1) * 10\<close>, and the clamped weighted sum.
\<close>

definition spec_score ::
    "float_arith \<Rightarrow> real \<Rightarrow> real \<Rightarrow> real \<Rightarrow> int \<Rightarrow> int \<Rightarrow> int \<Rightarrow> bool \<Rightarrow> real" where
  "spec_score fp stake uptime ai endorsements complaints interactions ver =
     (let stake_norm = min (fdiv fp (flog1p fp stake) (flog1p fp 1000)) 1;
          uptime_norm = clamp uptime 0 1;
          ai_norm = clamp ai 0 1;
          endorsement_norm =
            min (fdiv fp (flog1p fp (rnd fp (real_of_int endorsements))) (flog1p fp 100)) 1;
          complaint_ratio = rnd fp (real_of_int complaints / real_of_int (max interactions 1));
          complaint_penalty = fmul fp (min complaint_ratio 1) 10;
          verified_bonus = (if ver then 10 else 0)
      in clamp
           (fadd fp
              (fsub fp
                 (fadd fp
                    (fadd fp (fadd fp (fmul fp stake_norm 30) (fmul fp uptime_norm 25))
                       (fmul fp ai_norm 20))
                    (fmul fp endorsement_norm 15))
                 complaint_penalty)
              verified_bonus)
           0 100)"

text \<open>
  The same formula with the two guards of the code: \<open>stake_norm\<close> is 0 for a stake that is
  not positive, and \<open>complaint_ratio\<close> is \<open>complaints / total_interactions\<close> for a positive
  number of interactions and 0 otherwise.
\<close>

definition guarded_spec_score ::
    "float_arith \<Rightarrow> real \<Rightarrow> real \<Rightarrow> real \<Rightarrow> int \<Rightarrow> int \<Rightarrow> int \<Rightarrow> bool \<Rightarrow> real" where
  "guarded_spec_score fp stake uptime ai endorsements complaints interactions ver =
     (let stake_norm =
            (if 0 < stake then min (fdiv fp (flog1p fp stake) (flog1p fp 1000)) 1 else 0);
          uptime_norm = clamp uptime 0 1;
          ai_norm = clamp ai 0 1;
          endorsement_norm =
            min (fdiv fp (flog1p fp (rnd fp (real_of_int endorsements))) (flog1p fp 100)) 1;
          complaint_ratio =
            (if 0 < interactions
             then rnd fp (real_of_int complaints / real_of_int interactions)
             else 0);
          complaint_penalty = fmul fp (min complaint_ratio 1) 10;
          verified_bonus = (if ver then 10 else 0)
      in clamp
           (fadd fp
              (fsub fp
                 (fadd fp
                    (fadd fp (fadd fp (fmul fp stake_norm 30) (fmul fp uptime_norm 25))
                       (fmul fp ai_norm 20))
                    (fmul fp endorsement_norm 15))
                 complaint_penalty)
              verified_bonus)
           0 100)"

datatype spec_tier_name = UNVERIFIED | VERIFIED | TRUSTED | ENTERPRISE

fun tier_string :: "spec_tier_name \<Rightarrow> string" where
  "tier_string UNVERIFIED = ''UNVERIFIED''"
| "tier_string VERIFIED = ''VERIFIED''"
| "tier_string TRUSTED = ''TRUSTED''"
| "tier_string ENTERPRISE = ''ENTERPRISE''"

text \<open>
  The specification's tiering, "evaluated in order": score \<open>\<ge> 90\<close> gives ENTERPRISE, score
  \<open>\<ge> 70\<close> gives TRUSTED, score \<open>\<ge> 40\<close> and verified gives VERIFIED, otherwise UNVERIFIED.
\<close>

definition spec_tier :: "real \<Rightarrow> bool \<Rightarrow> spec_tier_name" where
  "spec_tier score ver =
     (if 90 \<le> score then ENTERPRISE
      else if 70 \<le> score then TRUSTED
      else if 40 \<le> score \<and> ver then VERIFIED
      else UNVERIFIED)"

section \<open>Node records and the registry table (registry/models.py)\<close>

text \<open>
  A node hash arrives from the ledger as a byte string and is stored as the text
  \<open>"0x" + nodeHash.hex()\<close>; \<open>bytes.fromhex\<close> reads it back (skipping ASCII whitespace before a
  byte, failing on anything that is not a pair of hexadecimal digits).
\<close>

type_synonym bytes = "8 word list"

definition hexdigit :: "nat \<Rightarrow> char" where
  "hexdigit n = ''0123456789abcdef'' ! n"

definition bytes_hex :: "bytes \<Rightarrow> string" where
  "bytes_hex bs = concat (map (\<lambda>b. [hexdigit (unat b div 16), hexdigit (unat b mod 16)]) bs)"

definition hexval :: "char \<Rightarrow> nat option" where
  "hexval c =
     (let n = (of_char c :: nat)
      in if 48 \<le> n \<and> n \<le> 57 then Some (n - 48)
         else if 97 \<le> n \<and> n \<le> 102 then Some (n - 87)
         else if 65 \<le> n \<and> n \<le> 70 then Some (n - 55)
         else None)"

definition py_isspace :: "char \<Rightarrow> bool" where
  "py_isspace c = ((of_char c :: nat) \<in> set [9, 10, 11, 12, 13, 32])"

fun bytes_fromhex :: "string \<Rightarrow> bytes option" where
  "bytes_fromhex [] = Some []"
| "bytes_fromhex [c] = (if py_isspace c then Some [] else None)"
| "bytes_fromhex (c # d # cs) =
     (if py_isspace c then bytes_fromhex (d # cs)
      else case (hexval c, hexval d) of
             (Some hi, Some lo) \<Rightarrow>
               (case bytes_fromhex cs of
                  None \<Rightarrow> None
                | Some bs \<Rightarrow> Some (word_of_nat (16 * hi + lo) # bs))
           | _ \<Rightarrow> None)"

text \<open>
  The table \<open>nodes\<close>. \<open>stake_wei\<close> is the integer whose decimal text the column holds (every
  writer stores \<open>str\<close> of an integer, and \<open>update_node_trust\<close> reads it back with \<open>int\<close>);
  timestamps are seconds since the epoch. The columns \<open>created_at\<close> and \<open>updated_at\<close>, which
  only the ORM's defaults write and nothing reads, are left out.
\<close>

record NodeRecord =
  node_hash :: string
  node_id :: string
  public_key :: "string option"
  wallet :: "string option"
  dns_name :: "string option"
  verified :: bool
  stake_wei :: int
  registered_at :: "nat option"
  trust_score :: real
  uptime_score :: real
  ai_quality_score :: real
  complaint_count :: int
  endorsement_count :: int
  trust_tier :: string
  ip_address :: "string option"
  last_seen :: "nat option"
  active :: bool

text \<open>The rows of the table, in insertion order.\<close>

type_synonym db = "NodeRecord list"

text \<open>\<open>db.query(NodeRecord).filter_by(node_hash=h).first()\<close>\<close>

definition query_first :: "string \<Rightarrow> db \<Rightarrow> NodeRecord option" where
  "query_first h rows = find (\<lambda>n. node_hash n = h) rows"

text \<open>
  Committing changes made to the object that \<open>query_first\<close> returned: the first row with that
  primary key is replaced.
\<close>

fun db_update :: "string \<Rightarrow> (NodeRecord \<Rightarrow> NodeRecord) \<Rightarrow> db \<Rightarrow> db" where
  "db_update h f [] = []"
| "db_update h f (n # ns) = (if node_hash n = h then f n # ns else n # db_update h f ns)"

text \<open>
  The constraints that \<open>models.py\<close> declares: \<open>node_hash\<close> is the primary key, \<open>node_id\<close> is
  \<open>unique=True, nullable=False\<close>, \<open>dns_name\<close> is \<open>unique=True, nullable=True\<close> (NULLs do not
  collide, equal texts do, the empty text included). A commit that would break one of them
  raises \<open>IntegrityError\<close> and leaves the table as it was.
\<close>

definition insert_conflict :: "NodeRecord \<Rightarrow> db \<Rightarrow> bool" where
  "insert_conflict n rows =
     list_ex (\<lambda>m. node_hash m = node_hash n
                  \<or> node_id m = node_id n
                  \<or> (dns_name n \<noteq> None \<and> dns_name m = dns_name n)) rows"

text \<open>\<open>db.add(node); db.commit()\<close>\<close>

definition db_add_commit :: "NodeRecord \<Rightarrow> db \<Rightarrow> error + db" where
  "db_add_commit n rows = (if insert_conflict n rows then Inl IntegrityError else Inr (rows @ [n]))"

text \<open>Whether giving the row \<open>h\<close> the node id \<open>nid\<close> collides with another row.\<close>

definition node_id_conflict :: "string \<Rightarrow> string \<Rightarrow> db \<Rightarrow> bool" where
  "node_id_conflict h nid rows = list_ex (\<lambda>m. node_hash m \<noteq> h \<and> node_id m = nid) rows"

section \<open>Recomputing a node's trust (registry/trust\_engine.py, update\_node\_trust)\<close>

text \<open>
  \<open>float(Web3.from_wei(int(node.stake_wei or 0), "ether"))\<close>: \<open>from_wei\<close> raises
  \<open>ValueError\<close> for an amount below 0 or above \<open>2 ^ 256 - 1\<close>, and divides by \<open>10 ^ 18\<close>
  otherwise.
\<close>

definition from_wei_ether :: "int \<Rightarrow> error + real" where
  "from_wei_ether w =
     (if w < 0 \<or> 2 ^ 256 - 1 < w then Inl ValueError else Inr (real_of_int w / 10 ^ 18))"

text \<open>
  The \<open>TrustInputs\<close> that \<open>update_node_trust\<close> builds from a row (its lines 135 to 145), for
  a \<open>stake_wei\<close> that \<open>from_wei\<close> accepts.
\<close>

definition trust_inputs :: "NodeRecord \<Rightarrow> TrustInputs" where
  "trust_inputs node =
     TrustInputs (real_of_int (stake_wei node) / 10 ^ 18) (uptime_score node)
       (ai_quality_score node) (endorsement_count node) (complaint_count node)
       (max 1 (endorsement_count node + complaint_count node)) (verified node)"

text \<open>
  \<open>update_node_trust\<close> returns the new table with the score and the tier, or the exception
  it raises (the table is then unchanged). Here and in the operations built on it the score
  is computed in the exact arithmetic.
\<close>

definition update_node_trust :: "db \<Rightarrow> string \<Rightarrow> error + (db \<times> real \<times> string)" where
  "update_node_trust rows h =
     (case query_first h rows of
        None \<Rightarrow> Inl ValueError
      | Some node \<Rightarrow>
          (case from_wei_ether (stake_wei node) of
             Inl e \<Rightarrow> Inl e
           | Inr stake_matic \<Rightarrow>
               (case compute_trust_score
                       (TrustInputs stake_matic (uptime_score node) (ai_quality_score node)
                          (endorsement_count node) (complaint_count node)
                          (max 1 (endorsement_count node + complaint_count node))
                          (verified node)) of
                  Inl e \<Rightarrow> Inl e
                | Inr (score, tier) \<Rightarrow>
                    Inr (db_update h (\<lambda>n. n\<lparr>trust_score := score, trust_tier := tier\<rparr>) rows,
                         score, tier))))"

text \<open>
  A row's stored score and tier agree with the scoring function applied to the row's own
  signals.
\<close>

definition trust_consistent :: "NodeRecord \<Rightarrow> bool" where
  "trust_consistent node =
     (compute_trust_score (trust_inputs node) = Inr (trust_score node, trust_tier node))"

section \<open>The ledger as the code sees it\<close>

text \<open>
  \<open>getNode\<close> returns a tuple of which the code reads the entries 0 (wallet), 2 (verified),
  3 (stake amount) and 5 (active). Every ledger call either returns or raises; building the
  client and the contract object (which raises when \<open>CONTRACT_ADDRESS\<close> is unset or the ABI
  file is missing) is part of the call.
\<close>

record on_chain_node =
  oc_wallet :: string
  oc_verified :: bool
  oc_stakeAmount :: int
  oc_active :: bool

datatype event =
    NodeRegistered bytes string string nat  \<comment> \<open>nodeHash, wallet, dnsName, timestamp\<close>
  | NodeVerified bytes                      \<comment> \<open>nodeHash\<close>
  | StakeAdded bytes int                    \<comment> \<open>nodeHash, newTotal\<close>
  | StakeWithdrawn bytes                    \<comment> \<open>nodeHash\<close>
  | NodeDeregistered bytes                  \<comment> \<open>nodeHash\<close>

record chain =
  block_number :: "error + int"
  has_event :: "string \<Rightarrow> bool"
  get_logs :: "string \<Rightarrow> int \<Rightarrow> int \<Rightarrow> error + event list"
  getNode :: "bytes \<Rightarrow> error + on_chain_node"
  resolveDNS :: "string \<Rightarrow> error + bytes"

section \<open>Event handlers (registry/event\_listener.py)\<close>

datatype log_level = INFO | WARNING | ERROR

text \<open>A log record: its level and the start of its message.\<close>

type_synonym log_entry = "log_level \<times> string"

text \<open>
  What a handler leaves behind: the table, the log records it wrote, and the exception it
  raised, if any.
\<close>

type_synonym handler_result = "db \<times> log_entry list \<times> error option"

text \<open>
  \<open>datetime.utcfromtimestamp\<close> raises beyond the last second of the year 9999.
\<close>

definition utcfromtimestamp :: "nat \<Rightarrow> error + nat" where
  "utcfromtimestamp ts = (if ts \<le> 253402300799 then Inr ts else Inl ValueError)"

text \<open>
  The \<open>NodeRecord(...)\<close> that \<open>process_node_registered\<close> builds (its lines 75 to 85), the
  columns it does not name taking their declared defaults.
\<close>

definition registered_record :: "string \<Rightarrow> string \<Rightarrow> string \<Rightarrow> nat \<Rightarrow> NodeRecord" where
  "registered_record h wal dnsName timestamp =
     \<lparr>node_hash = h, node_id = [], public_key = None, wallet = Some wal,
      dns_name = Some dnsName, verified = False, stake_wei = 0,
      registered_at = Some timestamp, trust_score = 0, uptime_score = 0,
      ai_quality_score = 0, complaint_count = 0, endorsement_count = 0,
      trust_tier = ''UNVERIFIED'', ip_address = None, last_seen = None,
      active = True\<rparr>"

definition process_node_registered ::
    "bytes \<Rightarrow> string \<Rightarrow> string \<Rightarrow> nat \<Rightarrow> db \<Rightarrow> handler_result" where
  "process_node_registered nodeHash wal dnsName ts rows =
     (let h = ''0x'' @ bytes_hex nodeHash
      in case utcfromtimestamp ts of
           Inl e \<Rightarrow> (rows, [], Some e)
         | Inr timestamp \<Rightarrow>
             (case query_first h rows of
                Some existing \<Rightarrow>
                  (rows, [(INFO, ''NodeRegistered: already in DB, skipping.'')], None)
              | None \<Rightarrow>
                  (case db_add_commit (registered_record h wal dnsName timestamp) rows of
                     Inl e \<Rightarrow> (rows, [], Some e)
                   | Inr rows' \<Rightarrow> (rows', [(INFO, ''NodeRegistered: '')], None))))"

definition process_node_verified :: "bytes \<Rightarrow> db \<Rightarrow> handler_result" where
  "process_node_verified nodeHash rows =
     (let h = ''0x'' @ bytes_hex nodeHash
      in case query_first h rows of
           None \<Rightarrow> (rows, [(WARNING, ''NodeVerified: node not in DB.'')], None)
         | Some node \<Rightarrow>
             (let rows1 = db_update h (\<lambda>n. n\<lparr>verified := True\<rparr>) rows
              in case update_node_trust rows1 h of
                   Inl e \<Rightarrow> (rows1, [], Some e)
                 | Inr (rows2, score, tier) \<Rightarrow> (rows2, [(INFO, ''NodeVerified: '')], None)))"

definition process_stake_added :: "bytes \<Rightarrow> int \<Rightarrow> db \<Rightarrow> handler_result" where
  "process_stake_added nodeHash newTotal rows =
     (let h = ''0x'' @ bytes_hex nodeHash
      in case query_first h rows of
           None \<Rightarrow> (rows, [(WARNING, ''StakeAdded: node not in DB.'')], None)
         | Some node \<Rightarrow>
             (let rows1 = db_update h (\<lambda>n. n\<lparr>stake_wei := newTotal\<rparr>) rows
              in case update_node_trust rows1 h of
                   Inl e \<Rightarrow> (rows1, [], Some e)
                 | Inr (rows2, score, tier) \<Rightarrow> (rows2, [(INFO, ''StakeAdded: '')], None)))"

definition process_stake_withdrawn :: "chain \<Rightarrow> bytes \<Rightarrow> db \<Rightarrow> handler_result" where
  "process_stake_withdrawn ch nodeHash rows =
     (let h = ''0x'' @ bytes_hex nodeHash
      in case query_first h rows of
           None \<Rightarrow> (rows, [], None)
         | Some node \<Rightarrow>
             (let (rows1, warned) =
                    (case getNode ch nodeHash of
                       Inr on_chain \<Rightarrow>
                         (db_update h (\<lambda>n. n\<lparr>stake_wei := oc_stakeAmount on_chain\<rparr>) rows, [])
                     | Inl e \<Rightarrow>
                         (rows, [(WARNING, ''Could not refresh stake from chain: '')]))
              in case update_node_trust rows1 h of
                   Inl e \<Rightarrow> (rows1, warned, Some e)
                 | Inr (rows2, score, tier) \<Rightarrow>
                     (rows2, warned @ [(INFO, ''StakeWithdrawn: '')], None)))"

definition process_node_deregistered :: "bytes \<Rightarrow> db \<Rightarrow> handler_result" where
  "process_node_deregistered nodeHash rows =
     (let h = ''0x'' @ bytes_hex nodeHash
      in case query_first h rows of
           Some node \<Rightarrow>
             (db_update h (\<lambda>n. n\<lparr>active := False\<rparr>) rows, [(INFO, ''NodeDeregistered: '')], None)
         | None \<Rightarrow> (rows, [], None))"

text \<open>
  \<open>EVENT_HANDLERS\<close>, in the order of the dictionary. The ledger client returns, for an event
  name, events of that type, so each handler is given the arguments of its own type.
\<close>

definition EVENT_NAMES :: "string list" where
  "EVENT_NAMES =
     [''NodeRegistered'', ''NodeVerified'', ''StakeAdded'', ''StakeWithdrawn'',
      ''NodeDeregistered'']"

fun handle_event :: "chain \<Rightarrow> event \<Rightarrow> db \<Rightarrow> handler_result" where
  "handle_event ch (NodeRegistered nodeHash wal dnsName ts) rows =
     process_node_registered nodeHash wal dnsName ts rows"
| "handle_event ch (NodeVerified nodeHash) rows = process_node_verified nodeHash rows"
| "handle_event ch (StakeAdded nodeHash newTotal) rows =
     process_stake_added nodeHash newTotal rows"
| "handle_event ch (StakeWithdrawn nodeHash) rows = process_stake_withdrawn ch nodeHash rows"
| "handle_event ch (NodeDeregistered nodeHash) rows = process_node_deregistered nodeHash rows"

section \<open>The listener's polling loop (registry/event\_listener.py, run\_listener)\<close>

definition POLL_INTERVAL :: nat where "POLL_INTERVAL = 5"
definition CONFIRMATIONS :: int where "CONFIRMATIONS = 2"

text \<open>
  The state the loop carries: the local \<open>from_block\<close>, the content of the file
  \<open>registry/.last_block\<close> (absent until the first write), the table, the log, and the
  \<open>get_logs\<close> calls made so far (event name, \<open>fromBlock\<close>, \<open>toBlock\<close>).
\<close>

record listener_state =
  from_block :: int
  last_block_file :: "int option"
  table :: db
  logged :: "log_entry list"
  calls :: "(string \<times> int \<times> int) list"

text \<open>
  One database session serves a whole batch, and the loop never calls \<open>rollback()\<close>. Once a
  commit has raised (the \<open>IntegrityError\<close> of an insert), the session refuses further work:
  every later handler of the batch raises \<open>PendingRollbackError\<close> at its \<open>db.query\<close> and
  changes nothing. The handlers above describe a session that is usable; \<open>handle_unusable\<close>
  is the exception a handler raises on one that is not (\<open>process_node_registered\<close> converts
  the timestamp before it queries).
\<close>

definition handle_unusable :: "event \<Rightarrow> error" where
  "handle_unusable ev =
     (case ev of
        NodeRegistered nodeHash wal dnsName ts \<Rightarrow>
          (case utcfromtimestamp ts of Inl e \<Rightarrow> e | Inr timestamp \<Rightarrow> PendingRollbackError)
      | NodeVerified nodeHash \<Rightarrow> PendingRollbackError
      | StakeAdded nodeHash newTotal \<Rightarrow> PendingRollbackError
      | StakeWithdrawn nodeHash \<Rightarrow> PendingRollbackError
      | NodeDeregistered nodeHash \<Rightarrow> PendingRollbackError)"

text \<open>
  The inner \<open>for event in events\<close>: an exception of a handler is caught and logged, and the
  loop goes on with the next event. \<open>unusable\<close> tells whether a commit of this batch's
  session has failed already.
\<close>

fun run_handlers ::
    "chain \<Rightarrow> string \<Rightarrow> event list \<Rightarrow> db \<Rightarrow> bool \<Rightarrow> db \<times> bool \<times> log_entry list" where
  "run_handlers ch event_name [] rows unusable = (rows, unusable, [])"
| "run_handlers ch event_name (ev # evs) rows unusable =
     (case (if unusable then (rows, [], Some (handle_unusable ev))
            else handle_event ch ev rows) of
        (rows1, lg, exc) \<Rightarrow>
          (case run_handlers ch event_name evs rows1
                  (unusable \<or> exc = Some IntegrityError) of
             (rows2, unusable2, lg2) \<Rightarrow>
               (rows2, unusable2,
                lg @ (case exc of
                        None \<Rightarrow> []
                      | Some e \<Rightarrow> [(ERROR, ''Error processing '' @ event_name @ '' event: '')])
                 @ lg2)))"

text \<open>
  The outer \<open>for event_name, handler in EVENT_HANDLERS.items()\<close>: a name the contract does
  not have is skipped; a \<open>get_logs\<close> that raises ends the batch with that exception, the
  changes of the event types handled before it staying committed.
\<close>

fun process_batch ::
    "chain \<Rightarrow> int \<Rightarrow> int \<Rightarrow> string list \<Rightarrow> db \<Rightarrow> bool
     \<Rightarrow> db \<times> log_entry list \<times> (string \<times> int \<times> int) list \<times> error option" where
  "process_batch ch frm cur [] rows unusable = (rows, [], [], None)"
| "process_batch ch frm cur (event_name # names) rows unusable =
     (if \<not> has_event ch event_name then process_batch ch frm cur names rows unusable
      else case get_logs ch event_name frm cur of
             Inl e \<Rightarrow> (rows, [], [(event_name, frm, cur)], Some e)
           | Inr events \<Rightarrow>
               (case run_handlers ch event_name events rows unusable of
                  (rows1, unusable1, lg) \<Rightarrow>
                    (case process_batch ch frm cur names rows1 unusable1 of
                       (rows2, lg2, cs, exc) \<Rightarrow>
                         (rows2, lg @ lg2, (event_name, frm, cur) # cs, exc))))"

text \<open>
  One iteration of \<open>while True\<close>, against the ledger as it is during that iteration; the
  batch gets a fresh session.
\<close>

definition poll_once :: "chain \<Rightarrow> listener_state \<Rightarrow> listener_state" where
  "poll_once ch st =
     (case block_number ch of
        Inl e \<Rightarrow> st\<lparr>logged := logged st @ [(ERROR, ''Listener error: '')]\<rparr>
      | Inr bn \<Rightarrow>
          (let current_block = bn - CONFIRMATIONS
           in if current_block \<le> from_block st then st
              else case process_batch ch (from_block st) current_block EVENT_NAMES (table st)
                          False of
                     (rows, lg, cs, Some e) \<Rightarrow>
                       st\<lparr>table := rows,
                          logged := logged st @ lg @ [(ERROR, ''Listener error: '')],
                          calls := calls st @ cs\<rparr>
                   | (rows, lg, cs, None) \<Rightarrow>
                       st\<lparr>from_block := current_block + 1,
                          last_block_file := Some (current_block + 1),
                          table := rows,
                          logged := logged st @ lg,
                          calls := calls st @ cs\<rparr>))"

text \<open>
  The start of \<open>run_listener\<close>, which reads the file, or else the head of the ledger; that
  read is outside every \<open>try\<close>.
\<close>

definition start_listener :: "chain \<Rightarrow> int option \<Rightarrow> db \<Rightarrow> error + listener_state" where
  "start_listener ch file rows =
     (case file of
        Some b \<Rightarrow>
          Inr \<lparr>from_block = b, last_block_file = file, table = rows,
               logged = [(INFO, ''Event listener started.'')], calls = []\<rparr>
      | None \<Rightarrow>
          (case block_number ch of
             Inl e \<Rightarrow> Inl e
           | Inr bn \<Rightarrow>
               Inr \<lparr>from_block = bn - 1000, last_block_file = None, table = rows,
                    logged = [(INFO, ''Event listener started.'')], calls = []\<rparr>))"

text \<open>
  The loop never returns; \<open>run_listener\<close> gives the state after the iterations that saw the
  given successive views of the ledger.
\<close>

fun run_listener :: "chain list \<Rightarrow> listener_state \<Rightarrow> listener_state" where
  "run_listener [] st = st"
| "run_listener (ch # chs) st = run_listener chs (poll_once ch st)"

text \<open>The order on the file's content: nothing written yet comes before everything.\<close>

fun file_le :: "int option \<Rightarrow> int option \<Rightarrow> bool" where
  "file_le None y = True"
| "file_le (Some a) None = False"
| "file_le (Some a) (Some b) = (a \<le> b)"

text \<open>The block numbers a list of \<open>get_logs\<close> calls asks for.\<close>

definition fetched_blocks :: "(string \<times> int \<times> int) list \<Rightarrow> int set" where
  "fetched_blocks cs = (\<Union>(name, frm, cur) \<in> set cs. {frm..cur})"

text \<open>Once the file has been written or read, its content is the loop's \<open>from_block\<close>.\<close>

definition file_sync :: "listener_state \<Rightarrow> bool" where
  "file_sync st = (case last_block_file st of None \<Rightarrow> True | Some b \<Rightarrow> from_block st = b)"

section \<open>The HTTP operations (registry/main.py)\<close>

record NodeRegisterRequest =
  req_node_hash :: string
  req_node_id :: string
  req_public_key :: "string option"
  req_wallet :: "string option"
  req_dns_name :: "string option"
  req_ip_address :: "string option"

text \<open>Python's truth value of an \<open>Optional[str]\<close>: neither \<open>None\<close> nor empty.\<close>

fun truthy :: "string option \<Rightarrow> bool" where
  "truthy None = False"
| "truthy (Some s) = (s \<noteq> [])"

text \<open>
  An operation returns the table it leaves and its response or the exception it raised;
  \<open>now\<close> is what \<open>datetime.utcnow()\<close> gives.
\<close>

text \<open>
  The \<open>NodeRecord(...)\<close> that \<open>register_node\<close> builds for a hash it does not know (its lines
  124 to 132), the columns it does not name taking their declared defaults.
\<close>

definition self_registered_record :: "NodeRegisterRequest \<Rightarrow> nat \<Rightarrow> NodeRecord" where
  "self_registered_record req now =
     \<lparr>node_hash = req_node_hash req, node_id = req_node_id req,
      public_key = req_public_key req, wallet = req_wallet req,
      dns_name = req_dns_name req, verified = False, stake_wei = 0,
      registered_at = None, trust_score = 0, uptime_score = 0,
      ai_quality_score = 0, complaint_count = 0, endorsement_count = 0,
      trust_tier = ''UNVERIFIED'', ip_address = req_ip_address req,
      last_seen = Some now, active = True\<rparr>"

definition register_node :: "NodeRegisterRequest \<Rightarrow> nat \<Rightarrow> db \<Rightarrow> db \<times> (error + string)" where
  "register_node req now rows =
     (case query_first (req_node_hash req) rows of
        Some existing \<Rightarrow>
          (if req_node_id req \<noteq> [] \<and> node_id_conflict (req_node_hash req) (req_node_id req) rows
           then (rows, Inl IntegrityError)
           else
             (db_update (req_node_hash req)
                (\<lambda>n. n\<lparr>public_key :=
                          (if truthy (req_public_key req) then req_public_key req
                           else public_key n),
                        ip_address :=
                          (if truthy (req_ip_address req) then req_ip_address req
                           else ip_address n),
                        node_id := (if req_node_id req \<noteq> [] then req_node_id req else node_id n),
                        last_seen := Some now\<rparr>) rows,
              Inr ''updated''))
      | None \<Rightarrow>
          (case db_add_commit (self_registered_record req now) rows of
             Inl e \<Rightarrow> (rows, Inl e)
           | Inr rows' \<Rightarrow> (rows', Inr ''registered'')))"

definition heartbeat :: "string \<Rightarrow> string option \<Rightarrow> nat \<Rightarrow> db \<Rightarrow> db \<times> (error + nat)" where
  "heartbeat h ip now rows =
     (case query_first h rows of
        None \<Rightarrow> (rows, Inl (HTTPException 404))
      | Some node \<Rightarrow>
          (db_update h
             (\<lambda>n. n\<lparr>last_seen := Some now,
                     ip_address := (if truthy ip then ip else ip_address n),
                     uptime_score := min 1 (uptime_score n + 1 / 100)\<rparr>) rows,
           Inr now))"

definition endorse_node :: "string \<Rightarrow> db \<Rightarrow> db \<times> (error + real \<times> string)" where
  "endorse_node h rows =
     (case query_first h rows of
        None \<Rightarrow> (rows, Inl (HTTPException 404))
      | Some node \<Rightarrow>
          (let rows1 = db_update h (\<lambda>n. n\<lparr>endorsement_count := endorsement_count n + 1\<rparr>) rows
           in case update_node_trust rows1 h of
                Inl e \<Rightarrow> (rows1, Inl e)
              | Inr (rows2, score, tier) \<Rightarrow> (rows2, Inr (score, tier))))"

definition complain_node :: "string \<Rightarrow> db \<Rightarrow> db \<times> (error + real \<times> string)" where
  "complain_node h rows =
     (case query_first h rows of
        None \<Rightarrow> (rows, Inl (HTTPException 404))
      | Some node \<Rightarrow>
          (let rows1 = db_update h (\<lambda>n. n\<lparr>complaint_count := complaint_count n + 1\<rparr>) rows
           in case update_node_trust rows1 h of
                Inl e \<Rightarrow> (rows1, Inl e)
              | Inr (rows2, score, tier) \<Rightarrow> (rows2, Inr (score, tier))))"

definition rescore_node :: "string \<Rightarrow> db \<Rightarrow> db \<times> (error + real \<times> string)" where
  "rescore_node h rows =
     (case update_node_trust rows h of
        Inl ValueError \<Rightarrow> (rows, Inl (HTTPException 404))
      | Inl e \<Rightarrow> (rows, Inl e)
      | Inr (rows2, score, tier) \<Rightarrow> (rows2, Inr (score, tier)))"

section \<open>The name resolver (registry/dns\_resolver.py)\<close>

text \<open>
  The dataclass \<open>DNSRecord\<close>; the constructor's arguments are, in the order of the source,
  \<open>dns_name\<close>, \<open>node_hash\<close>, \<open>wallet\<close>, \<open>public_key\<close>, \<open>ip_address\<close>, \<open>trust_score\<close>,
  \<open>trust_tier\<close>, \<open>verified\<close>, \<open>active\<close>.
\<close>

datatype DNSRecord =
  DNSRecord string string "string option" "string option" "string option" real string bool bool

definition resolve_on_chain :: "chain \<Rightarrow> string \<Rightarrow> string option" where
  "resolve_on_chain ch name =
     (case resolveDNS ch name of
        Inl e \<Rightarrow> None
      | Inr node_hash_bytes \<Rightarrow>
          (if node_hash_bytes = replicate 32 0 then None
           else Some (''0x'' @ bytes_hex node_hash_bytes)))"

text \<open>
  \<open>resolve_off_chain\<close> returns the row's \<open>to_dict()\<close>, which the model keeps as the row; the
  resolver may have been built without a session.
\<close>

definition resolve_off_chain :: "db option \<Rightarrow> string \<Rightarrow> NodeRecord option" where
  "resolve_off_chain session h =
     (case session of
        None \<Rightarrow> None
      | Some rows \<Rightarrow> query_first h rows)"

text \<open>
  \<open>resolve\<close>. \<open>to_dict()\<close> has no key \<open>public_key\<close>, so \<open>meta.get("public_key")\<close> is
  \<open>None\<close>. In the fallback every failure (of \<open>bytes.fromhex\<close>, of the ledger call) is caught
  and answered with \<open>None\<close>.
\<close>

definition resolve :: "chain \<Rightarrow> db option \<Rightarrow> string \<Rightarrow> DNSRecord option" where
  "resolve ch session name =
     (case resolve_on_chain ch name of
        None \<Rightarrow> None
      | Some h \<Rightarrow>
          (case resolve_off_chain session h of
             Some meta \<Rightarrow>
               Some (DNSRecord name h (wallet meta) None (ip_address meta) (trust_score meta)
                       (trust_tier meta) (verified meta) (active meta))
           | None \<Rightarrow>
               (case bytes_fromhex (drop 2 h) of
                  None \<Rightarrow> None
                | Some node_hash_bytes \<Rightarrow>
                    (case getNode ch node_hash_bytes of
                       Inl e \<Rightarrow> None
                     | Inr on_chain \<Rightarrow>
                         Some (DNSRecord name h (Some (oc_wallet on_chain)) None None 0
                                 (if oc_verified on_chain then ''VERIFIED'' else ''UNVERIFIED'')
                                 (oc_verified on_chain) (oc_active on_chain))))))"

definition reverse_lookup :: "db option \<Rightarrow> string \<Rightarrow> string option" where
  "reverse_lookup session h =
     (case session of
        None \<Rightarrow> None
      | Some rows \<Rightarrow>
          (case query_first h rows of
             None \<Rightarrow> None
           | Some node \<Rightarrow> dns_name node))"

section \<open>Properties of the trust engine\<close>

lemmas weights_defs =
  STAKE_WEIGHT_def UPTIME_WEIGHT_def AI_QUALITY_WEIGHT_def ENDORSEMENT_WEIGHT_def
  COMPLAINT_PENALTY_def VERIFIED_BONUS_def MAX_STAKE_MATIC_def

lemmas arith_defs = fadd_def fsub_def fmul_def fdiv_def

lemma rnd_exact: "rnd exact_arith x = x"
  by (simp add: exact_arith_def)

lemma flog1p_exact: "flog1p exact_arith x = log1p x"
  by (simp add: exact_arith_def)

lemma rounds_to_nearest_exact: "rounds_to_nearest exact_arith"
  by (simp add: rounds_to_nearest_def exact_arith_def)

lemma py_round2_fp_exact: "py_round2_fp exact_arith x = py_round2 x"
  by (simp add: py_round2_fp_def py_round2_def rnd_exact)

lemma float_overflow_small:
  assumes "\<bar>x\<bar> \<le> 1000000"
  shows "\<not> float_overflow x"
proof -
  have "(2::real) ^ 970 < 2 ^ 1023"
    by (rule power_strict_increasing) simp_all
  moreover have "(2::real) ^ 1024 = 2 * 2 ^ 1023"
    by simp
  moreover have "(1000000::real) \<le> 2 ^ 20"
    by simp
  moreover have "(2::real) ^ 20 \<le> 2 ^ 1023"
    by (rule power_increasing) simp_all
  ultimately have "\<bar>x\<bar> < 2 ^ 1024 - 2 ^ 970"
    using assms by linarith
  then show ?thesis
    by (simp add: float_overflow_def)
qed

text \<open>Counts of everyday size raise nothing.\<close>

lemma score_raises_small:
  assumes "0 \<le> e" and "e \<le> 1000000" and "\<bar>c\<bar> \<le> 1000000"
  shows "score_raises e c n = None"
proof -
  have e: "\<not> float_overflow (real_of_int e)"
    using assms(1,2) by (intro float_overflow_small) simp
  have e1: "\<not> real_of_int e \<le> -1"
    using assms(1) by simp
  have "0 < n \<Longrightarrow> \<not> float_overflow (real_of_int c / real_of_int n)"
  proof -
    assume n: "0 < n"
    then have "1 \<le> real_of_int n" by simp
    then have "\<bar>real_of_int c / real_of_int n\<bar> \<le> \<bar>real_of_int c\<bar>"
      by (simp add: divide_le_eq mult_le_cancel_left1)
    also have "\<dots> \<le> 1000000"
      using assms(3) by (simp flip: of_int_abs)
    finally show ?thesis
      by (rule float_overflow_small)
  qed
  with e e1 show ?thesis
    by (auto simp add: score_raises_def)
qed

text \<open>
  In every arithmetic: the score returned is the unrounded score rounded to two decimals,
  and the tier is the tier of the unrounded score.
\<close>

lemma compute_trust_score_fp_unrounded:
  "compute_trust_score_fp fp (TrustInputs s u a e c t v) =
     (case score_raises e c t of
        Some err \<Rightarrow> Inl err
      | None \<Rightarrow>
          Inr (py_round2_fp fp (unrounded_score_fp fp (TrustInputs s u a e c t v)),
               score_to_tier (unrounded_score_fp fp (TrustInputs s u a e c t v)) v))"
proof (cases "float_overflow (real_of_int e)")
  case True
  then show ?thesis
    by (simp only: compute_trust_score_fp_def score_raises_def TrustInputs.case if_True
          option.case)
next
  case o: False
  show ?thesis
  proof (cases "real_of_int e \<le> -1")
    case True
    with o show ?thesis
      by (simp only: compute_trust_score_fp_def score_raises_def TrustInputs.case if_True
            if_False option.case)
  next
    case d: False
    show ?thesis
    proof (cases "t > 0 \<and> float_overflow (real_of_int c / real_of_int t)")
      case True
      with o d show ?thesis
        by (simp only: compute_trust_score_fp_def score_raises_def TrustInputs.case if_True
              if_False option.case simp_thms)
    next
      case False
      with o d show ?thesis
        by (simp only: compute_trust_score_fp_def unrounded_score_fp_def score_raises_def
              Let_def TrustInputs.case if_True if_False option.case)
    qed
  qed
qed

lemma compute_trust_score_unrounded:
  "compute_trust_score (TrustInputs s u a e c t v) =
     (case score_raises e c t of
        Some err \<Rightarrow> Inl err
      | None \<Rightarrow>
          Inr (py_round2 (unrounded_score (TrustInputs s u a e c t v)),
               score_to_tier (unrounded_score (TrustInputs s u a e c t v)) v))"
  by (simp only: compute_trust_score_def unrounded_score_def compute_trust_score_fp_unrounded
        py_round2_fp_exact)

text \<open>The unrounded score in the exact arithmetic, as one expression.\<close>

lemma unrounded_score_exact:
  "unrounded_score (TrustInputs stake_matic uptime_ratio ai endorsements complaints
      interactions ver) =
     max 0 (min 100
       ((if stake_matic > 0 then min (log1p stake_matic / log1p MAX_STAKE_MATIC) 1 else 0)
          * STAKE_WEIGHT
        + max 0 (min 1 uptime_ratio) * UPTIME_WEIGHT
        + max 0 (min 1 ai) * AI_QUALITY_WEIGHT
        + min (log1p (real_of_int endorsements) / log1p 100) 1 * ENDORSEMENT_WEIGHT
        - min ((if interactions > 0
                then real_of_int complaints / real_of_int interactions
                else 0) * COMPLAINT_PENALTY) COMPLAINT_PENALTY
        + (if ver then VERIFIED_BONUS else 0)))"
  by (simp only: unrounded_score_def unrounded_score_fp_def TrustInputs.case arith_defs
        rnd_exact flog1p_exact)

lemma score_to_tier_spec: "score_to_tier s v = tier_string (spec_tier s v)"
  by (simp add: score_to_tier_def spec_tier_def)

lemma clamp_0_100: "0 \<le> max 0 (min 100 (x::real)) \<and> max 0 (min 100 x) \<le> 100"
  by simp

lemma unrounded_score_fp_range:
  "0 \<le> unrounded_score_fp fp i \<and> unrounded_score_fp fp i \<le> 100"
  by (cases i) (simp only: unrounded_score_fp_def TrustInputs.case clamp_0_100)

lemma unrounded_score_range:
  "0 \<le> unrounded_score i \<and> unrounded_score i \<le> 100"
  by (simp only: unrounded_score_def unrounded_score_fp_range)

lemma round_half_even_range:
  assumes "0 \<le> y" and "y \<le> 10000"
  shows "0 \<le> round_half_even y \<and> round_half_even y \<le> 10000"
proof -
  define f where "f = \<lfloor>y\<rfloor>"
  have f0: "0 \<le> f"
    using assms(1) by (simp add: f_def)
  have f1: "f \<le> 10000"
    using assms(2) by (simp add: f_def floor_le_iff)
  have fy: "of_int f \<le> y"
    by (simp add: f_def)
  show ?thesis
  proof (cases "f = 10000")
    case True
    then have "y - of_int f \<le> 0" using assms(2) by simp
    then have "y - of_int f < 1 / 2" by simp
    then have "round_half_even y = f"
      by (simp add: round_half_even_def Let_def f_def [symmetric])
    then show ?thesis using f0 f1 by simp
  next
    case False
    then have "f + 1 \<le> 10000" using f1 by simp
    moreover have "round_half_even y = f \<or> round_half_even y = f + 1"
      by (simp add: round_half_even_def Let_def f_def [symmetric])
    ultimately show ?thesis using f0 by auto
  qed
qed

lemma py_round2_range:
  assumes "0 \<le> x" and "x \<le> 100"
  shows "0 \<le> py_round2 x \<and> py_round2 x \<le> 100"
proof -
  have "0 \<le> x * 100" and "x * 100 \<le> 10000"
    using assms by simp_all
  then have r: "0 \<le> round_half_even (x * 100) \<and> round_half_even (x * 100) \<le> 10000"
    by (rule round_half_even_range)
  then have "(0::real) \<le> of_int (round_half_even (x * 100))"
    and "(of_int (round_half_even (x * 100)) :: real) \<le> 10000"
    by simp_all
  then show ?thesis
    by (simp add: py_round2_def)
qed

text \<open>Rounding to two decimals keeps a score in [0,100], in every rounding arithmetic.\<close>

lemma py_round2_fp_range:
  assumes "rounds_to_nearest fp" and "0 \<le> x" and "x \<le> 100"
  shows "0 \<le> py_round2_fp fp x \<and> py_round2_fp fp x \<le> 100"
proof -
  from assms(1) have mono: "\<And>a b. a \<le> b \<Longrightarrow> rnd fp a \<le> rnd fp b"
    and z: "rnd fp 0 = 0" and h: "rnd fp 100 = 100"
    by (simp_all add: rounds_to_nearest_def)
  have "0 \<le> py_round2 x" and "py_round2 x \<le> 100"
    using py_round2_range [OF assms(2,3)] by simp_all
  then have "rnd fp 0 \<le> rnd fp (py_round2 x)" and "rnd fp (py_round2 x) \<le> rnd fp 100"
    by (simp_all add: mono)
  then show ?thesis
    by (simp add: py_round2_fp_def py_round2_def z h)
qed

text \<open>Whatever the inputs, a score that is returned lies in [0,100].\<close>

lemma compute_trust_score_fp_range:
  assumes "rounds_to_nearest fp" and "compute_trust_score_fp fp i = Inr (r, t)"
  shows "0 \<le> r \<and> r \<le> 100"
proof (cases i)
  case (TrustInputs s u a e c n v)
  with assms(2) have "r = py_round2_fp fp (unrounded_score_fp fp i)"
    by (simp add: compute_trust_score_fp_unrounded split: option.splits)
  then show ?thesis
    using unrounded_score_fp_range [of fp i] py_round2_fp_range [OF assms(1)] by blast
qed

lemma compute_trust_score_range:
  assumes "compute_trust_score i = Inr (r, t)"
  shows "0 \<le> r \<and> r \<le> 100"
  using assms compute_trust_score_fp_range [OF rounds_to_nearest_exact]
  by (simp add: compute_trust_score_def)

text \<open>The two logarithmic components at the inputs used in the concrete evaluations.\<close>

lemma stake_norm_max: "min (log1p 1000 / log1p MAX_STAKE_MATIC) 1 = 1"
  by (simp add: log1p_def MAX_STAKE_MATIC_def)

lemma endorsement_norm_0: "min (log1p (real_of_int 0) / log1p 100) 1 = 0"
  by (simp add: log1p_def)

lemma endorsement_norm_100: "min (log1p (real_of_int 100) / log1p 100) 1 = 1"
  by (simp add: log1p_def)

lemmas norm_evals = stake_norm_max endorsement_norm_0 endorsement_norm_100

lemma py_round2_exact: "py_round2 (real_of_int k / 100) = real_of_int k / 100"
  by (simp add: py_round2_def round_half_even_def)

text \<open>
  The code's complaint penalty \<open>min(ratio * 10, 10)\<close> is the specification's
  \<open>min(ratio, 1) * 10\<close>, in every rounding arithmetic.
\<close>

lemma complaint_penalty_shape:
  assumes "rounds_to_nearest fp"
  shows "min (fmul fp r COMPLAINT_PENALTY) COMPLAINT_PENALTY = fmul fp (min r 1) 10"
proof -
  from assms have mono: "\<And>a b. a \<le> b \<Longrightarrow> rnd fp a \<le> rnd fp b"
    and t: "rnd fp 10 = 10"
    by (simp_all add: rounds_to_nearest_def)
  show ?thesis
  proof (cases "r \<le> 1")
    case True
    then have "rnd fp (r * 10) \<le> rnd fp 10"
      by (intro mono) simp
    with True show ?thesis
      by (simp add: fmul_def COMPLAINT_PENALTY_def t)
  next
    case False
    then have "rnd fp 10 \<le> rnd fp (r * 10)"
      by (intro mono) simp
    with False show ?thesis
      by (simp add: fmul_def COMPLAINT_PENALTY_def t)
  qed
qed

text \<open>The unrounded score is the guarded reference formula, in every rounding arithmetic.\<close>

lemma unrounded_score_guarded_spec:
  assumes "rounds_to_nearest fp"
  shows "unrounded_score_fp fp (TrustInputs stake u a e c n v) =
         guarded_spec_score fp stake u a e c n v"
  by (simp only: unrounded_score_fp_def guarded_spec_score_def TrustInputs.case Let_def
        clamp_def complaint_penalty_shape [OF assms] STAKE_WEIGHT_def UPTIME_WEIGHT_def
        AI_QUALITY_WEIGHT_def ENDORSEMENT_WEIGHT_def VERIFIED_BONUS_def MAX_STAKE_MATIC_def)

text \<open>
  The guarded formula is the specification's own for a positive stake and at least one
  interaction.
\<close>

lemma guarded_spec_score_is_spec_score:
  assumes "0 < stake" and "1 \<le> n"
  shows "guarded_spec_score fp stake u a e c n v = spec_score fp stake u a e c n v"
proof -
  from assms(2) have "max n 1 = n" and "0 < n" by simp_all
  with assms(1) show ?thesis
    by (simp only: guarded_spec_score_def spec_score_def if_True)
qed

text \<open>
  C2, as the specification states it, fails on the code for the pair that is returned: with
  stake 1000, uptime 1, AI quality 0.9998, 100 endorsements, no complaint and not verified,
  the engine returns the score 90.0 with the tier TRUSTED, where the tests applied to the
  score 90.0 give ENTERPRISE. The tier was taken from 89.996, the score before rounding.
\<close>

theorem tier_not_of_returned_score:
  "compute_trust_score (TrustInputs 1000 1 (9998 / 10000) 100 0 1 False) = Inr (90, ''TRUSTED'')
   \<and> tier_string (spec_tier 90 False) = ''ENTERPRISE''"
proof -
  have u: "unrounded_score (TrustInputs 1000 1 (9998 / 10000) 100 0 1 False) = 89996 / 1000"
    by (simp only: unrounded_score_exact norm_evals) (simp add: weights_defs)
  have r: "py_round2 (89996 / 1000) = 90"
    by (simp add: py_round2_def round_half_even_def Let_def)
  have t: "score_to_tier (89996 / 1000) False = ''TRUSTED''"
    by (simp add: score_to_tier_def)
  have n: "score_raises 100 0 1 = None"
    by (rule score_raises_small) simp_all
  have "compute_trust_score (TrustInputs 1000 1 (9998 / 10000) 100 0 1 False)
        = Inr (90, ''TRUSTED'')"
    by (simp only: compute_trust_score_unrounded n option.case u r t)
  moreover have "tier_string (spec_tier 90 False) = ''ENTERPRISE''"
    by (simp add: spec_tier_def)
  ultimately show ?thesis by simp
qed

text \<open>
  C2, amended. The tests the specification lists are applied, in that order, to the clamped
  score before it is rounded to two decimals, not to the score that is returned: for every
  input that raises nothing, in every arithmetic, the tier returned is ENTERPRISE from 90,
  TRUSTED from 70, VERIFIED from 40 for a verified node and UNVERIFIED otherwise, of the
  unrounded score; \<open>_score_to_tier\<close> itself is that chain for every score, and its four
  regions are spelled out. With verified set and every other signal zero (whatever the number
  of interactions) the engine returns score 10.0 and tier UNVERIFIED.
\<close>

theorem tier_in_order_on_unrounded_score:
  "map_sum id snd (compute_trust_score_fp fp (TrustInputs st u a e c n v)) =
     (case score_raises e c n of
        Some err \<Rightarrow> Inl err
      | None \<Rightarrow> Inr (tier_string (spec_tier (unrounded_score_fp fp (TrustInputs st u a e c n v)) v)))
   \<and> score_to_tier s v = tier_string (spec_tier s v)
   \<and> ((score_to_tier s v = ''ENTERPRISE'') = (90 \<le> s))
   \<and> ((score_to_tier s v = ''TRUSTED'') = (70 \<le> s \<and> s < 90))
   \<and> ((score_to_tier s v = ''VERIFIED'') = (40 \<le> s \<and> s < 70 \<and> v))
   \<and> ((score_to_tier s v = ''UNVERIFIED'') = (s < 40 \<or> (s < 70 \<and> v = False)))
   \<and> compute_trust_score (TrustInputs 0 0 0 0 0 n True) = Inr (10, ''UNVERIFIED'')"
proof -
  have g: "map_sum id snd (compute_trust_score_fp fp (TrustInputs st u a e c n v)) =
     (case score_raises e c n of
        Some err \<Rightarrow> Inl err
      | None \<Rightarrow> Inr (tier_string (spec_tier (unrounded_score_fp fp (TrustInputs st u a e c n v)) v)))"
    by (cases "score_raises e c n")
      (simp_all add: compute_trust_score_fp_unrounded score_to_tier_spec)
  have u: "unrounded_score (TrustInputs 0 0 0 0 0 n True) = 10"
    by (simp only: unrounded_score_exact norm_evals) (simp add: weights_defs)
  have "py_round2 10 = 10"
    using py_round2_exact [of 1000] by simp
  moreover have "score_to_tier 10 True = ''UNVERIFIED''"
    by (simp add: score_to_tier_def)
  moreover have "score_raises 0 0 n = None"
    by (rule score_raises_small) simp_all
  ultimately have "compute_trust_score (TrustInputs 0 0 0 0 0 n True) = Inr (10, ''UNVERIFIED'')"
    by (simp add: compute_trust_score_unrounded u)
  moreover have "score_to_tier s v = tier_string (spec_tier s v)"
    by (rule score_to_tier_spec)
  moreover have "(score_to_tier s v = ''ENTERPRISE'') = (90 \<le> s)"
    by (simp add: score_to_tier_def)
  moreover have "(score_to_tier s v = ''TRUSTED'') = (70 \<le> s \<and> s < 90)"
    by (simp add: score_to_tier_def)
  moreover have "(score_to_tier s v = ''VERIFIED'') = (40 \<le> s \<and> s < 70 \<and> v)"
    by (auto simp add: score_to_tier_def)
  moreover have "(score_to_tier s v = ''UNVERIFIED'') = (s < 40 \<or> (s < 70 \<and> v = False))"
    by (auto simp add: score_to_tier_def)
  ultimately show ?thesis using g by blast
qed

text \<open>
  C10. For every input that raises nothing, in every arithmetic, the returned score is the
  clamped score rounded to two decimals and the returned tier is decided by the clamped score
  before rounding; and there is an input whose unrounded score lies in [89.995, 90) for which
  the engine returns the pair (90.0, TRUSTED): stake 1000, uptime 0.59984, AI quality 1,
  100 endorsements, no complaint, verified.
\<close>

theorem rounded_score_unrounded_tier:
  "compute_trust_score_fp fp (TrustInputs s u a e c n v) =
     (case score_raises e c n of
        Some err \<Rightarrow> Inl err
      | None \<Rightarrow>
          Inr (py_round2_fp fp (unrounded_score_fp fp (TrustInputs s u a e c n v)),
               tier_string (spec_tier (unrounded_score_fp fp (TrustInputs s u a e c n v)) v)))
   \<and> (\<exists>i. 89995 / 1000 \<le> unrounded_score i \<and> unrounded_score i < 90
          \<and> compute_trust_score i = Inr (90, ''TRUSTED''))"
proof -
  let ?i = "TrustInputs 1000 (59984 / 100000) 1 100 0 1 True"
  have g: "compute_trust_score_fp fp (TrustInputs s u a e c n v) =
     (case score_raises e c n of
        Some err \<Rightarrow> Inl err
      | None \<Rightarrow>
          Inr (py_round2_fp fp (unrounded_score_fp fp (TrustInputs s u a e c n v)),
               tier_string (spec_tier (unrounded_score_fp fp (TrustInputs s u a e c n v)) v)))"
    by (simp only: compute_trust_score_fp_unrounded score_to_tier_spec)
  have u: "unrounded_score ?i = 89996 / 1000"
    by (simp only: unrounded_score_exact norm_evals) (simp add: weights_defs)
  have r: "py_round2 (89996 / 1000) = 90"
    by (simp add: py_round2_def round_half_even_def Let_def)
  have t: "score_to_tier (89996 / 1000) True = ''TRUSTED''"
    by (simp add: score_to_tier_def)
  have n: "score_raises 100 0 1 = None"
    by (rule score_raises_small) simp_all
  have "89995 / 1000 \<le> (89996 / 1000 :: real) \<and> (89996 / 1000 :: real) < 90"
    by simp
  then have "89995 / 1000 \<le> unrounded_score ?i \<and> unrounded_score ?i < 90"
    by (simp only: u)
  moreover have "compute_trust_score ?i = Inr (90, ''TRUSTED'')"
    by (simp only: compute_trust_score_unrounded n option.case u r t)
  ultimately show ?thesis using g by blast
qed

text \<open>
  C1, as the specification states it, fails on the code. With an AI quality of 0.0001 and
  every other signal zero the reference formula gives 0.002 and the engine returns 0.0,
  because it rounds the score to two decimals. With uptime 1, five complaints and no
  interaction the reference formula divides by \<open>max(0, 1)\<close> and gives 15, and the engine, which
  takes the complaint ratio as 0 when there is no interaction, returns 25.
\<close>

theorem compute_trust_score_not_reference_formula:
  "compute_trust_score (TrustInputs 0 0 (1 / 10000) 0 0 1 False) = Inr (0, ''UNVERIFIED'')
   \<and> spec_score exact_arith 0 0 (1 / 10000) 0 0 1 False = 1 / 500
   \<and> compute_trust_score (TrustInputs 0 1 0 0 5 0 False) = Inr (25, ''UNVERIFIED'')
   \<and> spec_score exact_arith 0 1 0 0 5 0 False = 15"
proof -
  have n: "score_raises 0 0 1 = None" and n': "score_raises 0 5 0 = None"
    by (rule score_raises_small; simp)+
  have u: "unrounded_score (TrustInputs 0 0 (1 / 10000) 0 0 1 False) = 1 / 500"
    by (simp only: unrounded_score_exact norm_evals) (simp add: weights_defs)
  have "py_round2 (1 / 500) = 0"
    by (simp add: py_round2_def round_half_even_def)
  moreover have "score_to_tier (1 / 500) False = ''UNVERIFIED''"
    by (simp add: score_to_tier_def)
  ultimately have 1:
    "compute_trust_score (TrustInputs 0 0 (1 / 10000) 0 0 1 False) = Inr (0, ''UNVERIFIED'')"
    by (simp add: compute_trust_score_unrounded u n)
  have s0: "min (fdiv exact_arith (flog1p exact_arith 0) (flog1p exact_arith 1000)) 1 = 0"
    by (simp add: fdiv_def rnd_exact flog1p_exact log1p_def)
  have e0: "min (fdiv exact_arith (flog1p exact_arith (rnd exact_arith (real_of_int 0)))
                   (flog1p exact_arith 100)) 1 = 0"
    by (simp add: fdiv_def rnd_exact flog1p_exact log1p_def)
  have 2: "spec_score exact_arith 0 0 (1 / 10000) 0 0 1 False = 1 / 500"
    by (simp only: spec_score_def Let_def s0 e0)
      (simp add: clamp_def arith_defs rnd_exact)
  have u': "unrounded_score (TrustInputs 0 1 0 0 5 0 False) = 25"
    by (simp only: unrounded_score_exact norm_evals) (simp add: weights_defs)
  have "py_round2 25 = 25"
    using py_round2_exact [of 2500] by simp
  moreover have "score_to_tier 25 False = ''UNVERIFIED''"
    by (simp add: score_to_tier_def)
  ultimately have 3:
    "compute_trust_score (TrustInputs 0 1 0 0 5 0 False) = Inr (25, ''UNVERIFIED'')"
    by (simp add: compute_trust_score_unrounded u' n')
  have 4: "spec_score exact_arith 0 1 0 0 5 0 False = 15"
    by (simp only: spec_score_def Let_def s0 e0)
      (simp add: clamp_def arith_defs rnd_exact)
  from 1 2 3 4 show ?thesis by simp
qed

text \<open>
  C1, amended. For every input tuple, in every arithmetic that rounds monotonically and
  leaves 0, 10 and 100 alone (as the doubles do): \<open>compute_trust_score\<close> raises when the
  endorsement count is -1 or less or too large for a double, or when the complaint ratio is
  too large for a double; otherwise the score it returns is the reference formula
  \<open>clamp(stake_norm*30 + uptime_norm*25 + ai_norm*20 + endorsement_norm*15 -
  complaint_penalty + verified_bonus, 0, 100)\<close> rounded to two decimal places, where
  \<open>stake_norm\<close> is 0 for a stake that is not positive and \<open>complaint_penalty\<close> is
  \<open>min(complaints / total_interactions, 1) * 10\<close> for a positive number of interactions and
  0 otherwise; and every score it returns lies in [0,100].
\<close>

theorem compute_trust_score_guarded_reference:
  assumes "rounds_to_nearest fp"
  shows "compute_trust_score_fp fp (TrustInputs stake u a e c n v) =
           (case score_raises e c n of
              Some err \<Rightarrow> Inl err
            | None \<Rightarrow>
                Inr (py_round2_fp fp (guarded_spec_score fp stake u a e c n v),
                     tier_string (spec_tier (guarded_spec_score fp stake u a e c n v) v)))
         \<and> (\<forall>r t. compute_trust_score_fp fp (TrustInputs stake u a e c n v) = Inr (r, t)
                \<longrightarrow> 0 \<le> r \<and> r \<le> 100)"
proof -
  have "compute_trust_score_fp fp (TrustInputs stake u a e c n v) =
           (case score_raises e c n of
              Some err \<Rightarrow> Inl err
            | None \<Rightarrow>
                Inr (py_round2_fp fp (guarded_spec_score fp stake u a e c n v),
                     tier_string (spec_tier (guarded_spec_score fp stake u a e c n v) v)))"
    by (simp only: compute_trust_score_fp_unrounded score_to_tier_spec
          unrounded_score_guarded_spec [OF assms])
  moreover have "\<forall>r t. compute_trust_score_fp fp (TrustInputs stake u a e c n v) = Inr (r, t)
                \<longrightarrow> 0 \<le> r \<and> r \<le> 100"
    using compute_trust_score_fp_range [OF assms] by blast
  ultimately show ?thesis by blast
qed

theorem compute_trust_score_guarded_reference_witness:
  "rounds_to_nearest exact_arith
   \<and> compute_trust_score_fp exact_arith (TrustInputs 1000 1 1 100 1 4 True)
       = Inr (195 / 2, ''ENTERPRISE'')
   \<and> py_round2_fp exact_arith (guarded_spec_score exact_arith 1000 1 1 100 1 4 True) = 195 / 2
   \<and> score_raises 100 1 4 = None"
proof -
  have n: "score_raises 100 1 4 = None"
    by (rule score_raises_small) simp_all
  have u: "unrounded_score (TrustInputs 1000 1 1 100 1 4 True) = 195 / 2"
    by (simp only: unrounded_score_exact norm_evals) (simp add: weights_defs)
  have g: "guarded_spec_score exact_arith 1000 1 1 100 1 4 True = 195 / 2"
    using unrounded_score_guarded_spec [OF rounds_to_nearest_exact, of 1000 1 1 100 1 4 True] u
    by (simp only: unrounded_score_def)
  have r: "py_round2 (195 / 2) = 195 / 2"
    using py_round2_exact [of 9750] by simp
  have t: "tier_string (spec_tier (195 / 2) True) = ''ENTERPRISE''"
    by (simp add: spec_tier_def)
  show ?thesis
    using compute_trust_score_guarded_reference [OF rounds_to_nearest_exact,
        of 1000 1 1 100 1 4 True]
    by (simp add: n g r t py_round2_fp_exact rounds_to_nearest_exact)
qed

section \<open>Properties of the table and of the hash encoding\<close>

lemma nibble_cases:
  "n < 16 \<Longrightarrow> n \<in> set [0, 1, 2, 3, 4, 5, 6, 7, 8, 9, 10, 11, 12, 13, 14, 15::nat]"
  by (simp; presburger)

lemma hexval_hexdigit: "n < 16 \<Longrightarrow> hexval (hexdigit n) = Some n"
  by (drule nibble_cases) (auto simp add: hexdigit_def hexval_def)

lemma not_space_hexdigit: "n < 16 \<Longrightarrow> \<not> py_isspace (hexdigit n)"
  by (drule nibble_cases) (auto simp add: hexdigit_def py_isspace_def)

lemma byte_nibbles: "word_of_nat (16 * (unat b div 16) + unat b mod 16) = (b :: 8 word)"
  by simp

lemma hi_nibble: "unat (b :: 8 word) div 16 < 16"
proof -
  have "unat b < 2 ^ LENGTH(8)" by (rule unsigned_less)
  then have "unat b < 256" by simp
  then show ?thesis by simp
qed

text \<open>\<open>bytes.fromhex\<close> reads back what \<open>hex\<close> wrote, so the stored text identifies the hash.\<close>

lemma bytes_fromhex_hex: "bytes_fromhex (bytes_hex bs) = Some bs"
proof (induction bs)
  case Nil
  then show ?case by (simp add: bytes_hex_def)
next
  case (Cons b bs)
  have "bytes_hex (b # bs) = hexdigit (unat b div 16) # hexdigit (unat b mod 16) # bytes_hex bs"
    by (simp add: bytes_hex_def)
  then show ?case
    using Cons.IH by (simp add: hexval_hexdigit not_space_hexdigit hi_nibble byte_nibbles)
qed

lemma bytes_hex_inj: "bytes_hex a = bytes_hex b \<Longrightarrow> a = b"
  by (metis bytes_fromhex_hex option.inject)

lemma query_first_db_update:
  assumes "\<And>n. node_hash (f n) = node_hash n"
  shows "query_first h (db_update h f rows) = map_option f (query_first h rows)"
  by (induction rows) (simp_all add: query_first_def assms)

lemma query_first_db_update_other:
  assumes "\<And>n. node_hash (f n) = node_hash n" and "h' \<noteq> h"
  shows "query_first h' (db_update h f rows) = query_first h' rows"
  using assms(2) by (induction rows) (simp_all add: query_first_def assms(1))

lemma length_db_update: "length (db_update h f rows) = length rows"
  by (induction rows) simp_all

lemma db_update_absent: "query_first h rows = None \<Longrightarrow> db_update h f rows = rows"
  by (induction rows) (simp_all add: query_first_def split: if_splits)

lemma query_first_append_new:
  "query_first h rows = None \<Longrightarrow> query_first h (rows @ [n]) = (if node_hash n = h then Some n else None)"
  by (induction rows) (simp_all add: query_first_def split: if_splits)

section \<open>Properties of the recomputation\<close>

lemma trust_inputs_ignores_trust:
  "trust_inputs (n\<lparr>trust_score := s, trust_tier := t\<rparr>) = trust_inputs n"
  by (simp add: trust_inputs_def)

lemma update_node_trust_rows:
  assumes "update_node_trust rows h = Inr (rows', s, t)"
  shows "rows' = db_update h (\<lambda>n. n\<lparr>trust_score := s, trust_tier := t\<rparr>) rows"
  using assms by (auto simp add: update_node_trust_def split: option.splits sum.splits)

text \<open>After a successful \<open>update_node_trust\<close> the row's score and tier are those of its signals.\<close>

lemma update_node_trust_consistent:
  assumes "update_node_trust rows h = Inr (rows', s, t)"
  shows "\<exists>n. query_first h rows' = Some n \<and> trust_consistent n
             \<and> trust_score n = s \<and> trust_tier n = t"
proof -
  from assms obtain node where q: "query_first h rows = Some node"
    by (auto simp add: update_node_trust_def split: option.splits)
  from assms q obtain x where w: "from_wei_ether (stake_wei node) = Inr x"
    and cx: "compute_trust_score
               (TrustInputs x (uptime_score node) (ai_quality_score node)
                  (endorsement_count node) (complaint_count node)
                  (max 1 (endorsement_count node + complaint_count node)) (verified node))
             = Inr (s, t)"
    by (auto simp add: update_node_trust_def split: sum.splits)
  from w have "x = real_of_int (stake_wei node) / 10 ^ 18"
    by (auto simp add: from_wei_ether_def split: if_splits)
  with cx have c: "compute_trust_score (trust_inputs node) = Inr (s, t)"
    by (simp add: trust_inputs_def)
  have r: "rows' = db_update h (\<lambda>n. n\<lparr>trust_score := s, trust_tier := t\<rparr>) rows"
    using assms by (rule update_node_trust_rows)
  have "query_first h rows' = Some (node\<lparr>trust_score := s, trust_tier := t\<rparr>)"
    by (simp add: r query_first_db_update q)
  moreover have "trust_consistent (node\<lparr>trust_score := s, trust_tier := t\<rparr>)"
    by (simp add: trust_consistent_def trust_inputs_ignores_trust c)
  ultimately show ?thesis by simp
qed

text \<open>The operations that recompute: endorse, complain and the ledger-event handlers.\<close>

lemma endorse_node_consistent:
  assumes "endorse_node h rows = (rows', Inr (s, t))"
  shows "\<exists>n. query_first h rows' = Some n \<and> trust_consistent n"
proof -
  from assms obtain rows1 where "update_node_trust rows1 h = Inr (rows', s, t)"
    by (auto simp add: endorse_node_def Let_def split: option.splits sum.splits)
  then show ?thesis using update_node_trust_consistent by blast
qed

lemma complain_node_consistent:
  assumes "complain_node h rows = (rows', Inr (s, t))"
  shows "\<exists>n. query_first h rows' = Some n \<and> trust_consistent n"
proof -
  from assms obtain rows1 where "update_node_trust rows1 h = Inr (rows', s, t)"
    by (auto simp add: complain_node_def Let_def split: option.splits sum.splits)
  then show ?thesis using update_node_trust_consistent by blast
qed

lemma process_node_verified_consistent:
  assumes "process_node_verified b rows = (rows', lg, None)"
    and "query_first (''0x'' @ bytes_hex b) rows = Some node"
  shows "\<exists>n. query_first (''0x'' @ bytes_hex b) rows' = Some n \<and> trust_consistent n \<and> verified n"
proof -
  let ?h = "''0x'' @ bytes_hex b"
  let ?rows1 = "db_update ?h (\<lambda>n. n\<lparr>verified := True\<rparr>) rows"
  from assms obtain s t where u: "update_node_trust ?rows1 ?h = Inr (rows', s, t)"
    by (auto simp add: process_node_verified_def Let_def split: sum.splits)
  have "query_first ?h rows' =
        map_option (\<lambda>n. n\<lparr>trust_score := s, trust_tier := t\<rparr>) (query_first ?h ?rows1)"
    by (simp only: update_node_trust_rows [OF u]) (simp add: query_first_db_update)
  also have "\<dots> = Some (node\<lparr>verified := True, trust_score := s, trust_tier := t\<rparr>)"
    using assms(2) by (simp add: query_first_db_update)
  finally have "query_first ?h rows' =
        Some (node\<lparr>verified := True, trust_score := s, trust_tier := t\<rparr>)" .
  then show ?thesis
    using update_node_trust_consistent [OF u] by auto
qed

lemma process_stake_added_consistent:
  assumes "process_stake_added b amount rows = (rows', lg, None)"
    and "query_first (''0x'' @ bytes_hex b) rows = Some node"
  shows "\<exists>n. query_first (''0x'' @ bytes_hex b) rows' = Some n \<and> trust_consistent n"
proof -
  from assms obtain rows1 s t where
    "update_node_trust rows1 (''0x'' @ bytes_hex b) = Inr (rows', s, t)"
    by (auto simp add: process_stake_added_def Let_def split: sum.splits)
  then show ?thesis using update_node_trust_consistent by blast
qed

lemma process_stake_withdrawn_consistent:
  assumes "process_stake_withdrawn ch b rows = (rows', lg, None)"
    and "query_first (''0x'' @ bytes_hex b) rows = Some node"
  shows "\<exists>n. query_first (''0x'' @ bytes_hex b) rows' = Some n \<and> trust_consistent n"
proof -
  from assms obtain rows1 s t where
    "update_node_trust rows1 (''0x'' @ bytes_hex b) = Inr (rows', s, t)"
    by (auto simp add: process_stake_withdrawn_def Let_def split: sum.splits prod.splits)
  then show ?thesis using update_node_trust_consistent by blast
qed

text \<open>The score of a node without stake and without endorsements.\<close>

lemma unrounded_score_bare:
  "unrounded_score (TrustInputs 0 u a 0 c t v) =
     max 0 (min 100
       (max 0 (min 1 u) * 25 + max 0 (min 1 a) * 20
        - min ((if t > 0 then real_of_int c / real_of_int t else 0) * 10) 10
        + (if v then 10 else 0)))"
  by (simp only: unrounded_score_exact norm_evals weights_defs)
     (simp add: if_distrib)

section \<open>Properties of the event handlers\<close>

text \<open>An event for a hash the table does not hold: what each of the four handlers does.\<close>

lemma unknown_hash_handlers:
  assumes "query_first (''0x'' @ bytes_hex b) rows = None"
  shows "process_node_verified b rows =
           (rows, [(WARNING, ''NodeVerified: node not in DB.'')], None)"
    and "process_stake_added b amount rows =
           (rows, [(WARNING, ''StakeAdded: node not in DB.'')], None)"
    and "process_stake_withdrawn ch b rows = (rows, [], None)"
    and "process_node_deregistered b rows = (rows, [], None)"
  using assms
  by (simp_all add: process_node_verified_def process_stake_added_def
        process_stake_withdrawn_def process_node_deregistered_def)

text \<open>
  C7. For a hash that is not in the table the four handlers return without raising and leave
  the table as it was, but only NodeVerified and StakeAdded log a warning; StakeWithdrawn and
  NodeDeregistered log nothing at all. Evaluated on the empty table.
\<close>

theorem unknown_hash_withdrawn_deregistered_log_nothing:
  "process_stake_withdrawn ch (replicate 32 1) [] = ([], [], None)
   \<and> process_node_deregistered (replicate 32 1) [] = ([], [], None)
   \<and> process_node_verified (replicate 32 1) [] =
         ([], [(WARNING, ''NodeVerified: node not in DB.'')], None)
   \<and> process_stake_added (replicate 32 1) 5 [] =
         ([], [(WARNING, ''StakeAdded: node not in DB.'')], None)"
  by (simp add: process_node_verified_def process_stake_added_def
        process_stake_withdrawn_def process_node_deregistered_def query_first_def)

text \<open>A Registered event for a hash the table holds changes nothing.\<close>

lemma process_node_registered_existing:
  assumes "query_first (''0x'' @ bytes_hex b) rows = Some n" and "ts \<le> 253402300799"
  shows "process_node_registered b w d ts rows =
           (rows, [(INFO, ''NodeRegistered: already in DB, skipping.'')], None)"
  using assms by (simp add: process_node_registered_def utcfromtimestamp_def)

text \<open>
  A Registered event for a new hash adds one row, when the row breaks no uniqueness
  constraint.
\<close>

lemma process_node_registered_new:
  assumes "query_first (''0x'' @ bytes_hex b) rows = None" and "ts \<le> 253402300799"
    and "\<not> insert_conflict (registered_record (''0x'' @ bytes_hex b) w d ts) rows"
  shows "process_node_registered b w d ts rows =
           (rows @ [registered_record (''0x'' @ bytes_hex b) w d ts],
            [(INFO, ''NodeRegistered: '')], None)"
  using assms by (simp add: process_node_registered_def utcfromtimestamp_def db_add_commit_def)

lemma registered_record_fields:
  "verified (registered_record h w d ts) = False
   \<and> trust_score (registered_record h w d ts) = 0
   \<and> trust_tier (registered_record h w d ts) = ''UNVERIFIED''
   \<and> node_id (registered_record h w d ts) = []
   \<and> node_hash (registered_record h w d ts) = h"
  by (simp add: registered_record_def)

text \<open>
  Every row that a Registered event creates has the empty \<open>node_id\<close>, and \<open>node_id\<close> is unique:
  while such a row is in the table, a Registered event for another hash is refused.
\<close>

lemma process_node_registered_second:
  assumes "query_first (''0x'' @ bytes_hex b) rows = None" and "ts \<le> 253402300799"
    and "m \<in> set rows" and "node_id m = []"
  shows "process_node_registered b w d ts rows = (rows, [], Some IntegrityError)"
proof -
  have "insert_conflict (registered_record (''0x'' @ bytes_hex b) w d ts) rows"
    using assms(3,4)
    by (auto simp add: insert_conflict_def list_ex_iff registered_record_def)
  then show ?thesis
    using assms(1,2)
    by (simp add: process_node_registered_def utcfromtimestamp_def db_add_commit_def)
qed

text \<open>
  C6. On the empty table a Registered event creates one row (not verified, score 0, tier
  UNVERIFIED, \<open>node_id\<close> empty). A Registered event for a second hash then finds no row for
  its hash, and yet creates none: the commit raises \<open>IntegrityError\<close>, because the new row
  would carry the empty \<open>node_id\<close> too.
\<close>

theorem second_registration_creates_no_record:
  "process_node_registered (replicate 32 1) ''0xA'' ''a.1bz'' 1700000000 [] =
     ([registered_record (''0x'' @ bytes_hex (replicate 32 1)) ''0xA'' ''a.1bz'' 1700000000],
      [(INFO, ''NodeRegistered: '')], None)
   \<and> query_first (''0x'' @ bytes_hex (replicate 32 2))
        [registered_record (''0x'' @ bytes_hex (replicate 32 1)) ''0xA'' ''a.1bz'' 1700000000]
       = None
   \<and> process_node_registered (replicate 32 2) ''0xB'' ''b.1bz'' 1700000060
        [registered_record (''0x'' @ bytes_hex (replicate 32 1)) ''0xA'' ''a.1bz'' 1700000000]
       = ([registered_record (''0x'' @ bytes_hex (replicate 32 1)) ''0xA'' ''a.1bz'' 1700000000],
          [], Some IntegrityError)"
proof -
  let ?a = "registered_record (''0x'' @ bytes_hex (replicate 32 1)) ''0xA'' ''a.1bz'' 1700000000"
  have ne: "bytes_hex (replicate 32 2) \<noteq> bytes_hex (replicate 32 1)"
    using bytes_hex_inj [of "replicate 32 2" "replicate 32 1"] by auto
  have first: "process_node_registered (replicate 32 1) ''0xA'' ''a.1bz'' 1700000000 [] =
        ([?a], [(INFO, ''NodeRegistered: '')], None)"
    using process_node_registered_new [of "replicate 32 1" "[]" 1700000000 "''0xA''" "''a.1bz''"]
    by (simp add: query_first_def insert_conflict_def)
  have q: "query_first (''0x'' @ bytes_hex (replicate 32 2)) [?a] = None"
    using ne by (simp add: query_first_def registered_record_def)
  have "process_node_registered (replicate 32 2) ''0xB'' ''b.1bz'' 1700000060 [?a] =
        ([?a], [], Some IntegrityError)"
    using q by (intro process_node_registered_second [where m = ?a])
      (simp_all add: registered_record_def)
  with first q show ?thesis by simp
qed

section \<open>Properties of the HTTP operations\<close>

text \<open>
  C3. A row as a Registered event creates it is consistent (score 0, tier UNVERIFIED). A
  heartbeat raises its \<open>uptime_score\<close> to 0.01 and recomputes nothing: the stored score stays
  0 while the scoring function gives 0.25 for the row's signals.
\<close>

theorem heartbeat_leaves_trust_stale:
  "heartbeat h None now [registered_record h w d ts] =
     ([(registered_record h w d ts)\<lparr>last_seen := Some now, uptime_score := 1 / 100\<rparr>], Inr now)
   \<and> trust_consistent (registered_record h w d ts)
   \<and> trust_score ((registered_record h w d ts)\<lparr>last_seen := Some now, uptime_score := 1 / 100\<rparr>)
       = 0
   \<and> compute_trust_score
        (trust_inputs ((registered_record h w d ts)\<lparr>last_seen := Some now, uptime_score := 1 / 100\<rparr>))
       = Inr (1 / 4, ''UNVERIFIED'')
   \<and> \<not> trust_consistent
         ((registered_record h w d ts)\<lparr>last_seen := Some now, uptime_score := 1 / 100\<rparr>)"
proof -
  let ?n = "registered_record h w d ts"
  let ?n' = "?n\<lparr>last_seen := Some now, uptime_score := 1 / 100\<rparr>"
  have hb: "heartbeat h None now [?n] = ([?n'], Inr now)"
    by (simp add: heartbeat_def query_first_def registered_record_def)
  have i0: "trust_inputs ?n = TrustInputs 0 0 0 0 0 1 False"
    by (simp add: trust_inputs_def registered_record_def)
  have i1: "trust_inputs ?n' = TrustInputs 0 (1 / 100) 0 0 0 1 False"
    by (simp add: trust_inputs_def registered_record_def)
  have r0: "py_round2 0 = 0"
    using py_round2_exact [of 0] by simp
  have r1: "py_round2 (1 / 4) = 1 / 4"
    using py_round2_exact [of 25] by simp
  have nr: "score_raises 0 0 1 = None"
    by (rule score_raises_small) simp_all
  have c0: "compute_trust_score (TrustInputs 0 0 0 0 0 1 False) = Inr (0, ''UNVERIFIED'')"
    by (simp add: compute_trust_score_unrounded nr unrounded_score_bare r0 score_to_tier_def)
  have c1: "compute_trust_score (TrustInputs 0 (1 / 100) 0 0 0 1 False) = Inr (1 / 4, ''UNVERIFIED'')"
    by (simp add: compute_trust_score_unrounded nr unrounded_score_bare r1 score_to_tier_def)
  have t0: "trust_consistent ?n"
    by (simp add: trust_consistent_def i0 c0) (simp add: registered_record_def)
  have s1: "trust_score ?n' = 0"
    by (simp add: registered_record_def)
  have t1: "\<not> trust_consistent ?n'"
    by (simp add: trust_consistent_def i1 c1) (simp add: registered_record_def)
  from hb t0 s1 t1 show ?thesis
    by (simp only: i1 c1) simp
qed

text \<open>An upsert for a known hash: what becomes of the row, of the others, of the table.\<close>

lemma register_node_existing:
  assumes "query_first (req_node_hash req) rows = Some n"
    and "req_node_id req = [] \<or> \<not> node_id_conflict (req_node_hash req) (req_node_id req) rows"
  shows "register_node req now rows =
           (db_update (req_node_hash req)
              (\<lambda>n. n\<lparr>public_key :=
                        (if truthy (req_public_key req) then req_public_key req else public_key n),
                      ip_address :=
                        (if truthy (req_ip_address req) then req_ip_address req else ip_address n),
                      node_id := (if req_node_id req \<noteq> [] then req_node_id req else node_id n),
                      last_seen := Some now\<rparr>) rows,
            Inr ''updated'')"
  using assms by (auto simp add: register_node_def)

lemma register_node_new:
  assumes "query_first (req_node_hash req) rows = None"
    and "\<not> insert_conflict (self_registered_record req now) rows"
  shows "register_node req now rows = (rows @ [self_registered_record req now], Inr ''registered'')"
  using assms by (simp add: register_node_def db_add_commit_def)

text \<open>
  C9, as the specification states it, fails on the code: a request that supplies a wallet and
  a name for a known hash leaves the row's wallet and name as they were (here absent).
\<close>

theorem register_node_ignores_wallet_and_dns_name:
  "register_node
     \<lparr>req_node_hash = ''0xab'', req_node_id = ''id1'', req_public_key = None,
      req_wallet = Some ''0xW'', req_dns_name = Some ''a.1bz'', req_ip_address = None\<rparr> 200
     [self_registered_record
        \<lparr>req_node_hash = ''0xab'', req_node_id = ''id1'', req_public_key = None,
         req_wallet = None, req_dns_name = None, req_ip_address = None\<rparr> 100]
   = ([\<lparr>node_hash = ''0xab'', node_id = ''id1'', public_key = None, wallet = None,
        dns_name = None, verified = False, stake_wei = 0, registered_at = None,
        trust_score = 0, uptime_score = 0, ai_quality_score = 0, complaint_count = 0,
        endorsement_count = 0, trust_tier = ''UNVERIFIED'', ip_address = None,
        last_seen = Some 200, active = True\<rparr>],
      Inr ''updated'')"
  by (simp add: register_node_def self_registered_record_def query_first_def
        node_id_conflict_def)

text \<open>
  C9, amended. For a known hash, when the request's \<open>node_id\<close> is empty or held by no other
  row, the upsert merges the request's non-empty \<open>node_id\<close>, \<open>public_key\<close> and \<open>ip_address\<close>
  into the row, sets \<open>last_seen\<close>, and leaves every other field of the row (wallet and name
  included), every other row and the number of rows as they were. For an unknown hash, when
  the new row breaks no uniqueness constraint, one row built from the request is added.
\<close>

theorem register_node_upsert:
  "(query_first (req_node_hash req) rows = Some n
     \<and> (req_node_id req = [] \<or> \<not> node_id_conflict (req_node_hash req) (req_node_id req) rows)
    \<longrightarrow> snd (register_node req now rows) = Inr ''updated''
        \<and> query_first (req_node_hash req) (fst (register_node req now rows)) =
            Some (n\<lparr>public_key :=
                      (if truthy (req_public_key req) then req_public_key req else public_key n),
                    ip_address :=
                      (if truthy (req_ip_address req) then req_ip_address req else ip_address n),
                    node_id := (if req_node_id req \<noteq> [] then req_node_id req else node_id n),
                    last_seen := Some now\<rparr>)
        \<and> (\<forall>h'. h' \<noteq> req_node_hash req
               \<longrightarrow> query_first h' (fst (register_node req now rows)) = query_first h' rows)
        \<and> length (fst (register_node req now rows)) = length rows)
   \<and> (query_first (req_node_hash req) rows = None
        \<and> \<not> insert_conflict (self_registered_record req now) rows
       \<longrightarrow> register_node req now rows =
             (rows @ [self_registered_record req now], Inr ''registered'')
           \<and> query_first (req_node_hash req) (rows @ [self_registered_record req now]) =
               Some (self_registered_record req now))"
proof (intro conjI impI allI)
  assume a: "query_first (req_node_hash req) rows = Some n
     \<and> (req_node_id req = [] \<or> \<not> node_id_conflict (req_node_hash req) (req_node_id req) rows)"
  then have r: "register_node req now rows =
           (db_update (req_node_hash req)
              (\<lambda>n. n\<lparr>public_key :=
                        (if truthy (req_public_key req) then req_public_key req else public_key n),
                      ip_address :=
                        (if truthy (req_ip_address req) then req_ip_address req else ip_address n),
                      node_id := (if req_node_id req \<noteq> [] then req_node_id req else node_id n),
                      last_seen := Some now\<rparr>) rows,
            Inr ''updated'')"
    using register_node_existing by blast
  show "snd (register_node req now rows) = Inr ''updated''"
    by (simp add: r)
  show "query_first (req_node_hash req) (fst (register_node req now rows)) =
            Some (n\<lparr>public_key :=
                      (if truthy (req_public_key req) then req_public_key req else public_key n),
                    ip_address :=
                      (if truthy (req_ip_address req) then req_ip_address req else ip_address n),
                    node_id := (if req_node_id req \<noteq> [] then req_node_id req else node_id n),
                    last_seen := Some now\<rparr>)"
    using a by (simp add: r query_first_db_update)
  show "length (fst (register_node req now rows)) = length rows"
    by (simp add: r length_db_update)
  fix h'
  assume "h' \<noteq> req_node_hash req"
  then show "query_first h' (fst (register_node req now rows)) = query_first h' rows"
    by (simp add: r query_first_db_update_other)
next
  assume b: "query_first (req_node_hash req) rows = None
        \<and> \<not> insert_conflict (self_registered_record req now) rows"
  then show "register_node req now rows =
             (rows @ [self_registered_record req now], Inr ''registered'')"
    using register_node_new by blast
  from b show "query_first (req_node_hash req) (rows @ [self_registered_record req now]) =
               Some (self_registered_record req now)"
    by (simp add: query_first_append_new self_registered_record_def)
qed

text \<open>The upsert of C9 on a known hash and on an unknown one.\<close>

theorem register_node_upsert_witness:
  "query_first ''0xab''
     [self_registered_record
        \<lparr>req_node_hash = ''0xab'', req_node_id = ''id1'', req_public_key = None,
         req_wallet = Some ''0xW'', req_dns_name = None, req_ip_address = Some ''10.0.0.1''\<rparr> 100]
   = Some (self_registered_record
        \<lparr>req_node_hash = ''0xab'', req_node_id = ''id1'', req_public_key = None,
         req_wallet = Some ''0xW'', req_dns_name = None, req_ip_address = Some ''10.0.0.1''\<rparr> 100)
   \<and> query_first ''0xab''
       (fst (register_node
          \<lparr>req_node_hash = ''0xab'', req_node_id = ''id2'', req_public_key = Some ''PEM'',
           req_wallet = Some ''0xOTHER'', req_dns_name = Some ''a.1bz'', req_ip_address = None\<rparr>
          200
          [self_registered_record
             \<lparr>req_node_hash = ''0xab'', req_node_id = ''id1'', req_public_key = None,
              req_wallet = Some ''0xW'', req_dns_name = None,
              req_ip_address = Some ''10.0.0.1''\<rparr> 100]))
     = Some \<lparr>node_hash = ''0xab'', node_id = ''id2'', public_key = Some ''PEM'',
             wallet = Some ''0xW'', dns_name = None, verified = False, stake_wei = 0,
             registered_at = None, trust_score = 0, uptime_score = 0, ai_quality_score = 0,
             complaint_count = 0, endorsement_count = 0, trust_tier = ''UNVERIFIED'',
             ip_address = Some ''10.0.0.1'', last_seen = Some 200, active = True\<rparr>
   \<and> register_node
       \<lparr>req_node_hash = ''0xab'', req_node_id = ''id1'', req_public_key = None,
        req_wallet = Some ''0xW'', req_dns_name = None, req_ip_address = Some ''10.0.0.1''\<rparr>
       100 []
     = ([self_registered_record
           \<lparr>req_node_hash = ''0xab'', req_node_id = ''id1'', req_public_key = None,
            req_wallet = Some ''0xW'', req_dns_name = None,
            req_ip_address = Some ''10.0.0.1''\<rparr> 100],
        Inr ''registered'')"
proof -
  let ?r0 = "\<lparr>req_node_hash = ''0xab'', req_node_id = ''id1'', req_public_key = None,
         req_wallet = Some ''0xW'', req_dns_name = None, req_ip_address = Some ''10.0.0.1''\<rparr>"
  let ?r1 = "\<lparr>req_node_hash = ''0xab'', req_node_id = ''id2'', req_public_key = Some ''PEM'',
           req_wallet = Some ''0xOTHER'', req_dns_name = Some ''a.1bz'', req_ip_address = None\<rparr>"
  let ?n = "self_registered_record ?r0 100"
  have q: "query_first (req_node_hash ?r1) [?n] = Some ?n"
    by (simp add: query_first_def self_registered_record_def)
  have nc: "req_node_id ?r1 = [] \<or> \<not> node_id_conflict (req_node_hash ?r1) (req_node_id ?r1) [?n]"
    by (simp add: node_id_conflict_def self_registered_record_def)
  have q0: "query_first (req_node_hash ?r0) [] = None"
    by (simp add: query_first_def)
  have ni: "\<not> insert_conflict (self_registered_record ?r0 100) []"
    by (simp add: insert_conflict_def)
  from register_node_upsert [of ?r1 "[?n]" ?n 200] q nc
  have 1: "query_first (req_node_hash ?r1) (fst (register_node ?r1 200 [?n])) =
      Some (?n\<lparr>public_key := (if truthy (req_public_key ?r1) then req_public_key ?r1
                               else public_key ?n),
               ip_address := (if truthy (req_ip_address ?r1) then req_ip_address ?r1
                              else ip_address ?n),
               node_id := (if req_node_id ?r1 \<noteq> [] then req_node_id ?r1 else node_id ?n),
               last_seen := Some 200\<rparr>)"
    by blast
  from register_node_upsert [of ?r0 "[]" ?n 100] q0 ni
  have 2: "register_node ?r0 100 [] = ([] @ [self_registered_record ?r0 100], Inr ''registered'')"
    by blast
  from q 1 2 show ?thesis
    by (simp add: self_registered_record_def)
qed

section \<open>Properties of the name resolver\<close>

lemma resolve_not_on_chain:
  assumes "resolveDNS ch name = Inr (replicate 32 0) \<or> (\<exists>e. resolveDNS ch name = Inl e)"
  shows "resolve ch session name = None"
  using assms by (auto simp add: resolve_def resolve_on_chain_def)

lemma resolve_fallback:
  assumes "resolveDNS ch name = Inr b" and "b \<noteq> replicate 32 0"
    and "resolve_off_chain session (''0x'' @ bytes_hex b) = None"
  shows "resolve ch session name =
           (case getNode ch b of
              Inl e \<Rightarrow> None
            | Inr on_chain \<Rightarrow>
                Some (DNSRecord name (''0x'' @ bytes_hex b) (Some (oc_wallet on_chain)) None None 0
                        (if oc_verified on_chain then ''VERIFIED'' else ''UNVERIFIED'')
                        (oc_verified on_chain) (oc_active on_chain)))"
  using assms
  by (cases "getNode ch b") (simp_all add: resolve_def resolve_on_chain_def bytes_fromhex_hex)

text \<open>
  C4, as the specification states it, fails on the code. A name that the ledger maps to a
  hash without a row: when the ledger reports the node verified, the degraded record carries
  the tier VERIFIED (with score 0), not a zeroed tier; and when the ledger's \<open>getNode\<close> call
  fails, resolution fails.
\<close>

theorem resolve_degraded_tier_and_failure:
  "resolve
     \<lparr>block_number = Inr 0, has_event = (\<lambda>nm. True), get_logs = (\<lambda>nm frm cur. Inr []),
      getNode = (\<lambda>b. Inr \<lparr>oc_wallet = ''0xW'', oc_verified = True, oc_stakeAmount = 0,
                           oc_active = True\<rparr>),
      resolveDNS = (\<lambda>nm. Inr (replicate 32 1))\<rparr>
     (Some []) ''known.alias''
   = Some (DNSRecord ''known.alias'' (''0x'' @ bytes_hex (replicate 32 1)) (Some ''0xW'') None
             None 0 ''VERIFIED'' True True)
   \<and> resolve
     \<lparr>block_number = Inr 0, has_event = (\<lambda>nm. True), get_logs = (\<lambda>nm frm cur. Inr []),
      getNode = (\<lambda>b. Inl RPCError),
      resolveDNS = (\<lambda>nm. Inr (replicate 32 1))\<rparr>
     (Some []) ''known.alias''
   = None"
proof -
  have nz: "replicate 32 (1 :: 8 word) \<noteq> replicate 32 0"
    by simp
  have off: "resolve_off_chain (Some []) (''0x'' @ bytes_hex (replicate 32 1)) = None"
    by (simp add: resolve_off_chain_def query_first_def)
  show ?thesis
    by (simp add: resolve_fallback [OF _ nz off])
qed

text \<open>
  C4, amended. When the ledger's name lookup returns the zero hash (or fails), \<open>resolve\<close>
  returns nothing, whatever the table holds. When it returns a hash for which the table has
  no row, \<open>resolve\<close> returns, if the ledger's \<open>getNode\<close> call succeeds, a record with the
  ledger's wallet, verified flag and active flag, no public key, no address, score 0 and the
  tier VERIFIED for a verified node, UNVERIFIED otherwise; if that call fails it returns
  nothing.
\<close>

theorem resolve_two_phase:
  "(resolveDNS ch name = Inr (replicate 32 0) \<longrightarrow> resolve ch session name = None)
   \<and> (resolveDNS ch name = Inr b \<and> b \<noteq> replicate 32 0
        \<and> resolve_off_chain session (''0x'' @ bytes_hex b) = None
       \<longrightarrow> (\<forall>on_chain. getNode ch b = Inr on_chain \<longrightarrow>
              resolve ch session name =
                Some (DNSRecord name (''0x'' @ bytes_hex b) (Some (oc_wallet on_chain)) None None 0
                        (if oc_verified on_chain then ''VERIFIED'' else ''UNVERIFIED'')
                        (oc_verified on_chain) (oc_active on_chain)))
           \<and> (\<forall>e. getNode ch b = Inl e \<longrightarrow> resolve ch session name = None))"
proof (intro conjI impI allI)
  assume "resolveDNS ch name = Inr (replicate 32 0)"
  then show "resolve ch session name = None"
    using resolve_not_on_chain by blast
next
  fix on_chain
  assume a: "resolveDNS ch name = Inr b \<and> b \<noteq> replicate 32 0
        \<and> resolve_off_chain session (''0x'' @ bytes_hex b) = None"
    and g: "getNode ch b = Inr on_chain"
  from a have "resolve ch session name =
           (case getNode ch b of
              Inl e \<Rightarrow> None
            | Inr on_chain \<Rightarrow>
                Some (DNSRecord name (''0x'' @ bytes_hex b) (Some (oc_wallet on_chain)) None None 0
                        (if oc_verified on_chain then ''VERIFIED'' else ''UNVERIFIED'')
                        (oc_verified on_chain) (oc_active on_chain)))"
    using resolve_fallback by blast
  then show "resolve ch session name =
                Some (DNSRecord name (''0x'' @ bytes_hex b) (Some (oc_wallet on_chain)) None None 0
                        (if oc_verified on_chain then ''VERIFIED'' else ''UNVERIFIED'')
                        (oc_verified on_chain) (oc_active on_chain))"
    by (simp add: g)
next
  fix e
  assume a: "resolveDNS ch name = Inr b \<and> b \<noteq> replicate 32 0
        \<and> resolve_off_chain session (''0x'' @ bytes_hex b) = None"
    and g: "getNode ch b = Inl e"
  from a have "resolve ch session name =
           (case getNode ch b of
              Inl e \<Rightarrow> None
            | Inr on_chain \<Rightarrow>
                Some (DNSRecord name (''0x'' @ bytes_hex b) (Some (oc_wallet on_chain)) None None 0
                        (if oc_verified on_chain then ''VERIFIED'' else ''UNVERIFIED'')
                        (oc_verified on_chain) (oc_active on_chain)))"
    using resolve_fallback by blast
  then show "resolve ch session name = None"
    by (simp add: g)
qed

theorem resolve_two_phase_witness:
  "resolve
     \<lparr>block_number = Inr 0, has_event = (\<lambda>nm. True), get_logs = (\<lambda>nm frm cur. Inr []),
      getNode = (\<lambda>b. Inl RPCError),
      resolveDNS = (\<lambda>nm. Inr (replicate 32 0))\<rparr>
     (Some [registered_record (''0x'' @ bytes_hex (replicate 32 7)) ''0xA'' ''ghost.alias''
              1700000000])
     ''ghost.alias''
   = None
   \<and> resolve
     \<lparr>block_number = Inr 0, has_event = (\<lambda>nm. True), get_logs = (\<lambda>nm frm cur. Inr []),
      getNode = (\<lambda>b. Inr \<lparr>oc_wallet = ''0xW'', oc_verified = False, oc_stakeAmount = 5,
                           oc_active = True\<rparr>),
      resolveDNS = (\<lambda>nm. Inr (replicate 32 7))\<rparr>
     None ''known.alias''
   = Some (DNSRecord ''known.alias'' (''0x'' @ bytes_hex (replicate 32 7)) (Some ''0xW'') None
             None 0 ''UNVERIFIED'' False True)
   \<and> resolve
     \<lparr>block_number = Inr 0, has_event = (\<lambda>nm. True), get_logs = (\<lambda>nm frm cur. Inr []),
      getNode = (\<lambda>b. Inl RPCError),
      resolveDNS = (\<lambda>nm. Inr (replicate 32 7))\<rparr>
     None ''known.alias''
   = None"
proof -
  let ?ghost = "\<lparr>block_number = Inr 0, has_event = (\<lambda>nm. True), get_logs = (\<lambda>nm frm cur. Inr []),
      getNode = (\<lambda>b. Inl RPCError),
      resolveDNS = (\<lambda>nm. Inr (replicate 32 (0 :: 8 word)))\<rparr>"
  let ?known = "\<lparr>block_number = Inr 0, has_event = (\<lambda>nm. True), get_logs = (\<lambda>nm frm cur. Inr []),
      getNode = (\<lambda>b. Inr \<lparr>oc_wallet = ''0xW'', oc_verified = False, oc_stakeAmount = 5,
                           oc_active = True\<rparr>),
      resolveDNS = (\<lambda>nm. Inr (replicate 32 (7 :: 8 word)))\<rparr>"
  let ?down = "\<lparr>block_number = Inr 0, has_event = (\<lambda>nm. True), get_logs = (\<lambda>nm frm cur. Inr []),
      getNode = (\<lambda>b. Inl RPCError),
      resolveDNS = (\<lambda>nm. Inr (replicate 32 (7 :: 8 word)))\<rparr>"
  have nz: "replicate 32 (7 :: 8 word) \<noteq> replicate 32 0"
    by simp
  have off: "resolve_off_chain None (''0x'' @ bytes_hex (replicate 32 7)) = None"
    by (simp add: resolve_off_chain_def)
  have g: "resolveDNS ?ghost ''ghost.alias'' = Inr (replicate 32 0)"
    by simp
  have k: "resolveDNS ?known ''known.alias'' = Inr (replicate 32 7)"
    by simp
  have d: "resolveDNS ?down ''known.alias'' = Inr (replicate 32 7)"
    by simp
  have gk: "getNode ?known (replicate 32 7) =
        Inr \<lparr>oc_wallet = ''0xW'', oc_verified = False, oc_stakeAmount = 5, oc_active = True\<rparr>"
    by simp
  have gd: "getNode ?down (replicate 32 7) = Inl RPCError"
    by simp
  from resolve_two_phase
    [of ?ghost "''ghost.alias''"
      "Some [registered_record (''0x'' @ bytes_hex (replicate 32 7)) ''0xA'' ''ghost.alias''
              1700000000]"] g
  have 1: "resolve ?ghost
     (Some [registered_record (''0x'' @ bytes_hex (replicate 32 7)) ''0xA'' ''ghost.alias''
              1700000000]) ''ghost.alias'' = None"
    by blast
  from resolve_two_phase [of ?known "''known.alias''" None "replicate 32 7"] k nz off gk
  have 2: "resolve ?known None ''known.alias'' =
      Some (DNSRecord ''known.alias'' (''0x'' @ bytes_hex (replicate 32 7)) (Some ''0xW'') None
             None 0 ''UNVERIFIED'' False True)"
    by simp
  from resolve_two_phase [of ?down "''known.alias''" None "replicate 32 7"] d nz off gd
  have 3: "resolve ?down None ''known.alias'' = None"
    by blast
  from 1 2 3 show ?thesis
    by blast
qed

section \<open>Properties of the polling loop\<close>

lemma file_le_refl: "file_le x x"
  by (cases x) simp_all

lemma file_le_trans: "file_le x y \<Longrightarrow> file_le y z \<Longrightarrow> file_le x z"
  by (cases x; cases y; cases z) simp_all

text \<open>Every \<open>get_logs\<close> call of a batch asks for the batch's range.\<close>

lemma process_batch_calls:
  "process_batch ch frm cur names rows unusable = (rows', lg, cs, exc)
   \<Longrightarrow> c \<in> set cs \<Longrightarrow> fst (snd c) = frm \<and> snd (snd c) = cur"
proof (induction names arbitrary: rows unusable rows' lg cs exc)
  case Nil
  then show ?case by simp
next
  case (Cons name names)
  show ?case
  proof (cases "has_event ch name")
    case False
    with Cons show ?thesis by simp
  next
    case True
    show ?thesis
    proof (cases "get_logs ch name frm cur")
      case (Inl e)
      with True Cons.prems show ?thesis by auto
    next
      case (Inr events)
      obtain rows1 unusable1 lg1 where
        r: "run_handlers ch name events rows unusable = (rows1, unusable1, lg1)"
        by (cases "run_handlers ch name events rows unusable") auto
      obtain rows2 lg2 cs2 exc2 where
        p: "process_batch ch frm cur names rows1 unusable1 = (rows2, lg2, cs2, exc2)"
        by (cases "process_batch ch frm cur names rows1 unusable1") auto
      from True Inr r p Cons.prems(1) have "cs = (name, frm, cur) # cs2"
        by simp
      with Cons.prems(2) Cons.IH [OF p] show ?thesis by auto
    qed
  qed
qed

text \<open>
  A batch ends without an exception when every \<open>get_logs\<close> call returns, whatever the
  handlers do with the events.
\<close>

lemma process_batch_no_exception:
  "\<forall>name \<in> set names. has_event ch name \<longrightarrow> (\<exists>evs. get_logs ch name frm cur = Inr evs)
   \<Longrightarrow> snd (snd (snd (process_batch ch frm cur names rows unusable))) = None"
proof (induction names arbitrary: rows unusable)
  case Nil
  then show ?case by simp
next
  case (Cons name names)
  then have ih:
    "\<And>rows unusable. snd (snd (snd (process_batch ch frm cur names rows unusable))) = None"
    by simp
  show ?case
  proof (cases "has_event ch name")
    case False
    then show ?thesis by (simp add: ih)
  next
    case True
    with Cons.prems obtain evs where g: "get_logs ch name frm cur = Inr evs"
      by auto
    obtain rows1 unusable1 lg1 where
      r: "run_handlers ch name evs rows unusable = (rows1, unusable1, lg1)"
      by (cases "run_handlers ch name evs rows unusable") auto
    obtain rows2 lg2 cs2 exc2 where
      p: "process_batch ch frm cur names rows1 unusable1 = (rows2, lg2, cs2, exc2)"
      by (cases "process_batch ch frm cur names rows1 unusable1") auto
    from ih [of rows1 unusable1] p have "exc2 = None" by simp
    with True g r p show ?thesis by simp
  qed
qed

text \<open>
  Once a commit of the batch's session has failed, the handlers that follow leave the table
  as it is.
\<close>

lemma run_handlers_unusable:
  "run_handlers ch name evs rows True = (rows', unusable', lg) \<Longrightarrow> rows' = rows \<and> unusable'"
proof (induction evs arbitrary: rows' unusable' lg)
  case Nil
  then show ?case by simp
next
  case (Cons ev evs)
  obtain rows2 unusable2 lg2 where r: "run_handlers ch name evs rows True = (rows2, unusable2, lg2)"
    by (cases "run_handlers ch name evs rows True") auto
  with Cons.prems have "rows' = rows2" and "unusable' = unusable2"
    by simp_all
  with Cons.IH [OF r] show ?case by simp
qed

lemma poll_once_from_block: "from_block st \<le> from_block (poll_once ch st)"
  by (auto simp add: poll_once_def Let_def split: sum.splits prod.splits option.splits)

lemma poll_once_file:
  "(from_block (poll_once ch st) = from_block st
      \<and> last_block_file (poll_once ch st) = last_block_file st)
   \<or> (last_block_file (poll_once ch st) = Some (from_block (poll_once ch st))
      \<and> from_block st < from_block (poll_once ch st))"
  by (auto simp add: poll_once_def Let_def split: sum.splits prod.splits option.splits)

lemma poll_once_file_sync: "file_sync st \<Longrightarrow> file_sync (poll_once ch st)"
  using poll_once_file [of ch st]
  by (auto simp add: file_sync_def split: option.splits)

lemma poll_once_file_le:
  assumes "file_sync st"
  shows "file_le (last_block_file st) (last_block_file (poll_once ch st))"
proof (cases "last_block_file st")
  case None
  then show ?thesis by simp
next
  case (Some b)
  with assms have "from_block st = b" by (simp add: file_sync_def)
  with Some poll_once_file [of ch st] show ?thesis by auto
qed

lemma poll_once_calls:
  assumes "c \<in> set (calls (poll_once ch st))"
  shows "c \<in> set (calls st) \<or> fst (snd c) = from_block st"
proof (cases "block_number ch")
  case (Inl e)
  with assms show ?thesis by (simp add: poll_once_def)
next
  case (Inr bn)
  show ?thesis
  proof (cases "bn - CONFIRMATIONS \<le> from_block st")
    case True
    with Inr assms show ?thesis by (simp add: poll_once_def)
  next
    case False
    obtain rows lg cs exc where
      p: "process_batch ch (from_block st) (bn - CONFIRMATIONS) EVENT_NAMES (table st) False
          = (rows, lg, cs, exc)"
      by (cases "process_batch ch (from_block st) (bn - CONFIRMATIONS) EVENT_NAMES (table st) False")
        auto
    from Inr False p have "calls (poll_once ch st) = calls st @ cs"
      by (cases exc) (simp_all add: poll_once_def Let_def)
    with assms have "c \<in> set (calls st) \<or> c \<in> set cs"
      by auto
    then show ?thesis
      using process_batch_calls [OF p, of c] by blast
  qed
qed

text \<open>
  A batch whose \<open>get_logs\<close> calls all return writes the block after its upper bound to the
  file, whatever the handlers did.
\<close>

lemma poll_once_advances:
  assumes "block_number ch = Inr bn" and "from_block st < bn - CONFIRMATIONS"
    and "\<forall>name \<in> set EVENT_NAMES. has_event ch name \<longrightarrow>
           (\<exists>evs. get_logs ch name (from_block st) (bn - CONFIRMATIONS) = Inr evs)"
  shows "last_block_file (poll_once ch st) = Some (bn - CONFIRMATIONS + 1)
         \<and> from_block (poll_once ch st) = bn - CONFIRMATIONS + 1"
proof -
  obtain rows lg cs exc where
    p: "process_batch ch (from_block st) (bn - CONFIRMATIONS) EVENT_NAMES (table st) False
        = (rows, lg, cs, exc)"
    by (cases "process_batch ch (from_block st) (bn - CONFIRMATIONS) EVENT_NAMES (table st) False")
      auto
  from process_batch_no_exception [OF assms(3), of "table st" False] p have "exc = None"
    by simp
  with assms(1,2) p show ?thesis
    by (simp add: poll_once_def Let_def)
qed

lemma run_listener_file_sync: "file_sync st \<Longrightarrow> file_sync (run_listener chs st)"
  by (induction chs arbitrary: st) (simp_all add: poll_once_file_sync)

lemma run_listener_file_le:
  "file_sync st \<Longrightarrow> file_le (last_block_file st) (last_block_file (run_listener chs st))"
proof (induction chs arbitrary: st)
  case Nil
  then show ?case by (simp add: file_le_refl)
next
  case (Cons ch chs)
  from Cons.prems have "file_le (last_block_file st) (last_block_file (poll_once ch st))"
    by (rule poll_once_file_le)
  moreover from Cons.prems have "file_sync (poll_once ch st)"
    by (rule poll_once_file_sync)
  then have "file_le (last_block_file (poll_once ch st))
               (last_block_file (run_listener chs (poll_once ch st)))"
    by (rule Cons.IH)
  ultimately show ?case
    using file_le_trans by simp
qed

lemma run_listener_from_block: "from_block st \<le> from_block (run_listener chs st)"
proof (induction chs arbitrary: st)
  case Nil
  then show ?case by simp
next
  case (Cons ch chs)
  have "from_block st \<le> from_block (poll_once ch st)"
    by (rule poll_once_from_block)
  also have "\<dots> \<le> from_block (run_listener chs (poll_once ch st))"
    by (rule Cons.IH)
  finally show ?case by simp
qed

lemma run_listener_calls:
  "c \<in> set (calls (run_listener chs st))
   \<Longrightarrow> c \<in> set (calls st) \<or> from_block st \<le> fst (snd c)"
proof (induction chs arbitrary: st)
  case Nil
  then show ?case by simp
next
  case (Cons ch chs)
  from Cons.prems have "c \<in> set (calls (run_listener chs (poll_once ch st)))"
    by simp
  then have "c \<in> set (calls (poll_once ch st)) \<or> from_block (poll_once ch st) \<le> fst (snd c)"
    by (rule Cons.IH)
  then show ?case
    using poll_once_calls [of c ch st] poll_once_from_block [of st ch] by auto
qed

lemma start_listener_state:
  assumes "start_listener ch file rows = Inr st"
  shows "file_sync st \<and> last_block_file st = file \<and> calls st = []
         \<and> (\<forall>p. file = Some p \<longrightarrow> from_block st = p)"
  using assms
  by (auto simp add: start_listener_def file_sync_def split: option.splits sum.splits)

lemma fetched_blocks_from:
  assumes "\<And>c. c \<in> set cs \<Longrightarrow> p \<le> fst (snd c)" and "blk \<in> fetched_blocks cs"
  shows "p \<le> blk"
proof -
  from assms(2) obtain name frm cur where "(name, frm, cur) \<in> set cs" and "frm \<le> blk"
    by (auto simp add: fetched_blocks_def)
  with assms(1) [of "(name, frm, cur)"] show ?thesis by simp
qed

lemma poll_once_calls_upper:
  assumes "block_number ch = Inr bn" and "c \<in> set (calls (poll_once ch st))"
  shows "c \<in> set (calls st) \<or> snd (snd c) = bn - CONFIRMATIONS"
proof (cases "bn - CONFIRMATIONS \<le> from_block st")
  case True
  with assms show ?thesis by (simp add: poll_once_def)
next
  case False
  obtain rows lg cs exc where
    p: "process_batch ch (from_block st) (bn - CONFIRMATIONS) EVENT_NAMES (table st) False
        = (rows, lg, cs, exc)"
    by (cases "process_batch ch (from_block st) (bn - CONFIRMATIONS) EVENT_NAMES (table st) False")
      auto
  from assms(1) False p have "calls (poll_once ch st) = calls st @ cs"
    by (cases exc) (simp_all add: poll_once_def Let_def)
  with assms(2) have "c \<in> set (calls st) \<or> c \<in> set cs"
    by auto
  then show ?thesis
    using process_batch_calls [OF p, of c] by blast
qed

text \<open>
  C5, as the specification states it, fails on the code. Started from a file that holds 100,
  with the ledger's head at 110, the loop fetches the blocks 100 to 108 and writes 109 to the
  file, one more than the batch's upper bound; restarted from that file, with the head at
  120, it fetches from block 109 on, so the block whose number the file holds is fetched.
\<close>

theorem checkpoint_file_holds_next_block:
  "start_listener
     \<lparr>block_number = Inr 110, has_event = (\<lambda>nm. True), get_logs = (\<lambda>nm frm cur. Inr []),
      getNode = (\<lambda>b. Inl RPCError), resolveDNS = (\<lambda>nm. Inl RPCError)\<rparr> (Some 100) []
   = Inr \<lparr>from_block = 100, last_block_file = Some 100, table = [],
          logged = [(INFO, ''Event listener started.'')], calls = []\<rparr>
   \<and> last_block_file
       (poll_once
          \<lparr>block_number = Inr 110, has_event = (\<lambda>nm. True), get_logs = (\<lambda>nm frm cur. Inr []),
           getNode = (\<lambda>b. Inl RPCError), resolveDNS = (\<lambda>nm. Inl RPCError)\<rparr>
          \<lparr>from_block = 100, last_block_file = Some 100, table = [],
           logged = [(INFO, ''Event listener started.'')], calls = []\<rparr>)
     = Some 109
   \<and> calls
       (poll_once
          \<lparr>block_number = Inr 110, has_event = (\<lambda>nm. True), get_logs = (\<lambda>nm frm cur. Inr []),
           getNode = (\<lambda>b. Inl RPCError), resolveDNS = (\<lambda>nm. Inl RPCError)\<rparr>
          \<lparr>from_block = 100, last_block_file = Some 100, table = [],
           logged = [(INFO, ''Event listener started.'')], calls = []\<rparr>)
     = [(''NodeRegistered'', 100, 108), (''NodeVerified'', 100, 108), (''StakeAdded'', 100, 108),
        (''StakeWithdrawn'', 100, 108), (''NodeDeregistered'', 100, 108)]
   \<and> start_listener
     \<lparr>block_number = Inr 120, has_event = (\<lambda>nm. True), get_logs = (\<lambda>nm frm cur. Inr []),
      getNode = (\<lambda>b. Inl RPCError), resolveDNS = (\<lambda>nm. Inl RPCError)\<rparr> (Some 109) []
   = Inr \<lparr>from_block = 109, last_block_file = Some 109, table = [],
          logged = [(INFO, ''Event listener started.'')], calls = []\<rparr>
   \<and> 109 \<in> fetched_blocks
        (calls
          (poll_once
             \<lparr>block_number = Inr 120, has_event = (\<lambda>nm. True), get_logs = (\<lambda>nm frm cur. Inr []),
              getNode = (\<lambda>b. Inl RPCError), resolveDNS = (\<lambda>nm. Inl RPCError)\<rparr>
             \<lparr>from_block = 109, last_block_file = Some 109, table = [],
              logged = [(INFO, ''Event listener started.'')], calls = []\<rparr>))"
  by (simp add: start_listener_def poll_once_def Let_def CONFIRMATIONS_def EVENT_NAMES_def
        fetched_blocks_def)

text \<open>
  C5, amended. The file holds the next block to fetch, one more than the highest block of
  the last finished batch. From any start (cold, or a restart from the file): the file's
  content never decreases, over the run so far and over each further iteration; a batch whose
  \<open>get_logs\<close> calls all return writes its upper bound plus one to the file, whatever its
  handlers raised, and its calls reach no further than that upper bound; and after a start
  from a file holding \<open>p\<close> the loop begins at \<open>p\<close> and never fetches a block below \<open>p\<close>.
\<close>

theorem checkpoint_next_block_monotone:
  assumes "start_listener ch0 file rows = Inr st0"
  shows "file_le file (last_block_file (run_listener chs st0))
    \<and> file_le (last_block_file (run_listener chs st0))
        (last_block_file (poll_once ch (run_listener chs st0)))
    \<and> (block_number ch = Inr bn \<and> from_block (run_listener chs st0) < bn - CONFIRMATIONS
         \<and> (\<forall>name \<in> set EVENT_NAMES. has_event ch name \<longrightarrow>
               (\<exists>evs. get_logs ch name (from_block (run_listener chs st0)) (bn - CONFIRMATIONS)
                        = Inr evs))
        \<longrightarrow> last_block_file (poll_once ch (run_listener chs st0)) = Some (bn - CONFIRMATIONS + 1)
            \<and> (\<forall>c \<in> set (calls (poll_once ch (run_listener chs st0))).
                  c \<in> set (calls (run_listener chs st0)) \<or> snd (snd c) = bn - CONFIRMATIONS))
    \<and> (\<forall>p. file = Some p \<longrightarrow>
          from_block st0 = p
          \<and> (\<forall>blk \<in> fetched_blocks (calls (run_listener chs st0)). p \<le> blk))"
proof -
  from assms have s: "file_sync st0" and f: "last_block_file st0 = file"
    and c0: "calls st0 = []" and fb: "\<And>p. file = Some p \<Longrightarrow> from_block st0 = p"
    using start_listener_state by blast+
  have 1: "file_le file (last_block_file (run_listener chs st0))"
    using run_listener_file_le [OF s, of chs] by (simp add: f)
  have 2: "file_le (last_block_file (run_listener chs st0))
        (last_block_file (poll_once ch (run_listener chs st0)))"
    using s by (intro poll_once_file_le run_listener_file_sync)
  have 3: "block_number ch = Inr bn \<and> from_block (run_listener chs st0) < bn - CONFIRMATIONS
         \<and> (\<forall>name \<in> set EVENT_NAMES. has_event ch name \<longrightarrow>
               (\<exists>evs. get_logs ch name (from_block (run_listener chs st0)) (bn - CONFIRMATIONS)
                        = Inr evs))
        \<longrightarrow> last_block_file (poll_once ch (run_listener chs st0)) = Some (bn - CONFIRMATIONS + 1)
            \<and> (\<forall>c \<in> set (calls (poll_once ch (run_listener chs st0))).
                  c \<in> set (calls (run_listener chs st0)) \<or> snd (snd c) = bn - CONFIRMATIONS)"
    using poll_once_advances [of ch bn "run_listener chs st0"]
      poll_once_calls_upper [of ch bn _ "run_listener chs st0"]
    by blast
  have 4: "\<forall>p. file = Some p \<longrightarrow>
          from_block st0 = p
          \<and> (\<forall>blk \<in> fetched_blocks (calls (run_listener chs st0)). p \<le> blk)"
  proof (intro allI impI conjI ballI)
    fix p
    assume p: "file = Some p"
    then show "from_block st0 = p" by (rule fb)
    fix blk
    assume b: "blk \<in> fetched_blocks (calls (run_listener chs st0))"
    have "\<And>c. c \<in> set (calls (run_listener chs st0)) \<Longrightarrow> p \<le> fst (snd c)"
      using run_listener_calls [of _ chs st0] fb [OF p] by (auto simp add: c0)
    then show "p \<le> blk"
      using b by (rule fetched_blocks_from)
  qed
  from 1 2 3 4 show ?thesis by blast
qed

theorem checkpoint_next_block_monotone_witness:
  "start_listener
     \<lparr>block_number = Inr 110, has_event = (\<lambda>nm. True),
      get_logs = (\<lambda>nm frm cur. Inr (if nm = ''NodeRegistered''
        then [NodeRegistered (replicate 32 1) ''0xA'' ''a.1bz'' 1700000000,
              NodeRegistered (replicate 32 2) ''0xB'' ''b.1bz'' 1700000060]
        else [])),
      getNode = (\<lambda>b. Inl RPCError), resolveDNS = (\<lambda>nm. Inl RPCError)\<rparr> (Some 100) []
   = Inr \<lparr>from_block = 100, last_block_file = Some 100, table = [],
          logged = [(INFO, ''Event listener started.'')], calls = []\<rparr>
   \<and> last_block_file
       (poll_once
          \<lparr>block_number = Inr 110, has_event = (\<lambda>nm. True),
           get_logs = (\<lambda>nm frm cur. Inr (if nm = ''NodeRegistered''
             then [NodeRegistered (replicate 32 1) ''0xA'' ''a.1bz'' 1700000000,
                   NodeRegistered (replicate 32 2) ''0xB'' ''b.1bz'' 1700000060]
             else [])),
           getNode = (\<lambda>b. Inl RPCError), resolveDNS = (\<lambda>nm. Inl RPCError)\<rparr>
          \<lparr>from_block = 100, last_block_file = Some 100, table = [],
           logged = [(INFO, ''Event listener started.'')], calls = []\<rparr>)
     = Some 109
   \<and> logged
       (poll_once
          \<lparr>block_number = Inr 110, has_event = (\<lambda>nm. True),
           get_logs = (\<lambda>nm frm cur. Inr (if nm = ''NodeRegistered''
             then [NodeRegistered (replicate 32 1) ''0xA'' ''a.1bz'' 1700000000,
                   NodeRegistered (replicate 32 2) ''0xB'' ''b.1bz'' 1700000060]
             else [])),
           getNode = (\<lambda>b. Inl RPCError), resolveDNS = (\<lambda>nm. Inl RPCError)\<rparr>
          \<lparr>from_block = 100, last_block_file = Some 100, table = [],
           logged = [(INFO, ''Event listener started.'')], calls = []\<rparr>)
     = [(INFO, ''Event listener started.''), (INFO, ''NodeRegistered: ''),
        (ERROR, ''Error processing NodeRegistered event: '')]
   \<and> file_le (Some 100) (Some 109)"
proof -
  let ?ch = "\<lparr>block_number = Inr 110, has_event = (\<lambda>nm. True),
      get_logs = (\<lambda>nm frm cur. Inr (if nm = ''NodeRegistered''
        then [NodeRegistered (replicate 32 1) ''0xA'' ''a.1bz'' 1700000000,
              NodeRegistered (replicate 32 2) ''0xB'' ''b.1bz'' 1700000060]
        else [])),
      getNode = (\<lambda>b. Inl RPCError), resolveDNS = (\<lambda>nm. Inl RPCError)\<rparr>"
  let ?st = "\<lparr>from_block = 100, last_block_file = Some 100, table = [],
          logged = [(INFO, ''Event listener started.'')], calls = []\<rparr>"
  let ?a = "registered_record (''0x'' @ bytes_hex (replicate 32 1)) ''0xA'' ''a.1bz'' 1700000000"
  have start: "start_listener ?ch (Some 100) [] = Inr ?st"
    by (simp add: start_listener_def)
  have ne: "bytes_hex (replicate 32 2) \<noteq> bytes_hex (replicate 32 1)"
    using bytes_hex_inj [of "replicate 32 2" "replicate 32 1"] by auto
  have first: "process_node_registered (replicate 32 1) ''0xA'' ''a.1bz'' 1700000000 [] =
        ([?a], [(INFO, ''NodeRegistered: '')], None)"
    using process_node_registered_new [of "replicate 32 1" "[]" 1700000000 "''0xA''" "''a.1bz''"]
    by (simp add: query_first_def insert_conflict_def)
  have q: "query_first (''0x'' @ bytes_hex (replicate 32 2)) [?a] = None"
    using ne by (simp add: query_first_def registered_record_def)
  have second: "process_node_registered (replicate 32 2) ''0xB'' ''b.1bz'' 1700000060 [?a] =
        ([?a], [], Some IntegrityError)"
    using q by (intro process_node_registered_second [where m = ?a])
      (simp_all add: registered_record_def)
  have handlers: "run_handlers ?ch ''NodeRegistered''
        [NodeRegistered (replicate 32 1) ''0xA'' ''a.1bz'' 1700000000,
         NodeRegistered (replicate 32 2) ''0xB'' ''b.1bz'' 1700000060] [] False =
        ([?a], True,
         [(INFO, ''NodeRegistered: ''), (ERROR, ''Error processing NodeRegistered event: '')])"
    using first second by simp
  have batch: "process_batch ?ch 100 108 EVENT_NAMES [] False =
        ([?a], [(INFO, ''NodeRegistered: ''), (ERROR, ''Error processing NodeRegistered event: '')],
         [(''NodeRegistered'', 100, 108), (''NodeVerified'', 100, 108), (''StakeAdded'', 100, 108),
          (''StakeWithdrawn'', 100, 108), (''NodeDeregistered'', 100, 108)], None)"
    using handlers by (simp add: EVENT_NAMES_def)
  have lg: "logged (poll_once ?ch ?st) =
        [(INFO, ''Event listener started.''), (INFO, ''NodeRegistered: ''),
         (ERROR, ''Error processing NodeRegistered event: '')]"
    using batch by (simp add: poll_once_def Let_def CONFIRMATIONS_def)
  have bn: "block_number ?ch = Inr 110"
    by simp
  have lt: "from_block (run_listener [] ?st) < 110 - CONFIRMATIONS"
    by (simp add: CONFIRMATIONS_def)
  have logs: "\<forall>name \<in> set EVENT_NAMES. has_event ?ch name \<longrightarrow>
        (\<exists>evs. get_logs ?ch name (from_block (run_listener [] ?st)) (110 - CONFIRMATIONS) = Inr evs)"
    by simp
  from checkpoint_next_block_monotone [OF start, of "[]" ?ch 110] bn lt logs
  have "last_block_file (poll_once ?ch (run_listener [] ?st)) = Some (110 - CONFIRMATIONS + 1)"
    by blast
  then have "last_block_file (poll_once ?ch ?st) = Some 109"
    by (simp add: CONFIRMATIONS_def)
  with start lg show ?thesis
    by simp
qed

end
